theory Spec2Isabelle
  imports Complex_Main "HOL-Library.AList" "HOL-Library.Sublist" "HOL-Library.Multiset"
begin

section \<open>Shared data of the orchestrator\<close>

text \<open>
  The orchestration core of the GPU build control plane (\<^verbatim>\<open>src/orchestrator\<close>) is embedded
  function by function. Python objects become records, enums become datatypes, dictionaries
  whose iteration order the code observes become association lists in insertion order
  (\<^const>\<open>AList.update\<close> overwrites in place or appends, as a Python \<^verbatim>\<open>dict\<close> does), and
  every exception the source raises is a value of type \<open>exc\<close>. Clock readings
  (\<^verbatim>\<open>datetime.now\<close>), fresh identifiers (\<^verbatim>\<open>uuid4\<close>) and the answers of the outside world
  (cluster API, HTTP probes, host introspection) are arguments of the functions that read them.
  Instants are rationals. A Python \<^verbatim>\<open>float\<close> (memory in GB, average build time, a score) is
  the rational it denotes, and every floating-point operation of the source is the exact
  operation followed by \<open>float_round\<close> (see below).
\<close>

type_synonym UUID = nat
type_synonym instant = rat

text \<open>\<^verbatim>\<open>common/config/constants.py\<close>: the members of the two enums, in declaration order.\<close>

datatype Priority = LOW | NORMAL | HIGH | CRITICAL

datatype BuildStatus =
  PENDING | QUEUED | RUNNING | SUCCESS | FAILURE | CANCELLED | TIMEOUT | SKIPPED

datatype exc =
  AttributeError string
| ValidationError
| UnboundLocalError string
| IndexError
| ValueError
| ZeroDivisionError

subsection \<open>Texts\<close>

text \<open>
  A Python text that the code lowers and searches is the list of its Unicode code points
  (type \<open>str\<close>); \<open>lit\<close> turns a literal of the source into one. \<^verbatim>\<open>a in b\<close> on texts is
  \<^const>\<open>sublist\<close> and \<^verbatim>\<open>b.startswith(a)\<close> is \<^const>\<open>prefix\<close>. A text that the code only stores,
  compares or tests for a prefix (names, identifiers, dictionary keys) is an Isabelle string;
  it stands for the bytes of the text's UTF-8 encoding, on which those three operations give
  the answers they give on the text.

  \<^verbatim>\<open>str.lower()\<close> is computed from the Unicode tables of the interpreter. The functions that
  call it take it as their argument \<open>lower\<close>. \<open>lower_basic\<close> is \<^verbatim>\<open>str.lower()\<close> on the texts
  made of Basic Latin (U+0000 to U+007F) and the Kelvin sign U+212A, whose lower case is the
  letter k; the scenarios use it.
\<close>

type_synonym str = "int list"

definition lit :: "string \<Rightarrow> str" where
  "lit s = map of_char s"



subsection \<open>Floating point\<close>

text \<open>
  \<open>float_round x\<close> is the double nearest to \<open>x\<close>, a tie going to the even significand: the
  rounding of IEEE 754 binary64 (53 bits, least exponent \<open>-1074\<close>), which Python applies in
  every operation on floats, in the conversion of an \<^verbatim>\<open>int\<close> to a \<^verbatim>\<open>float\<close> and in the true
  division of two ints. For \<open>x\<close> the fraction \<open>p / q\<close> in lowest terms, \<open>e\<close> is the
  exponent of its leading bit, \<open>k\<close> the exponent of the last bit a double of that size
  keeps, and \<open>n\<close> the multiple of \<open>2 ^ k\<close> nearest to \<open>\<bar>x\<bar>\<close>; all of it is integer
  arithmetic. \<open>bit_length\<close> is \<^verbatim>\<open>int.bit_length\<close>, \<open>pow2 k\<close> is \<open>2 ^ k\<close> for \<open>k\<close> from zero
  on, and \<open>round_half_even num den\<close> is the integer nearest to \<open>num / den\<close>. Numbers of
  magnitude \<open>2 ^ 1024\<close> and beyond, where Python has an infinity or an \<^verbatim>\<open>OverflowError\<close>,
  are outside the model, and so is NaN.
\<close>

function bit_length :: "int \<Rightarrow> int" where
  "bit_length n = (if n \<le> 0 then 0 else 1 + bit_length (n div 2))"
  by pat_completeness auto
termination
  by (relation "measure nat") auto

function pow2 :: "int \<Rightarrow> int" where
  "pow2 k = (if k \<le> 0 then 1 else 2 * pow2 (k - 1))"
  by pat_completeness auto
termination
  by (relation "measure nat") auto

definition round_half_even :: "int \<Rightarrow> int \<Rightarrow> int" where
  "round_half_even num den =
     (let f = num div den; r = num mod den
      in if 2 * r < den then f else if den < 2 * r then f + 1 else if even f then f else f + 1)"

definition float_round :: "rat \<Rightarrow> rat" where
  "float_round x =
     (let (p, q) = quotient_of x; a = \<bar>p\<bar>
      in if p = 0 then 0
         else (let d = bit_length a - bit_length q;
                   e = (if (if 0 \<le> d then pow2 d * q \<le> a else q \<le> a * pow2 (- d))
                        then d else d - 1);
                   k = max (e - 52) (- 1074);
                   n = (if k < 0 then round_half_even (a * pow2 (- k)) q
                        else round_half_even a (q * pow2 k))
               in if k < 0 then of_int (sgn p * n) / of_int (pow2 (- k))
                  else of_int (sgn p * n * pow2 k)))"

text \<open>
  The arithmetic of the source where an operand is a float. An operand that is an \<^verbatim>\<open>int\<close> is
  converted first, which is what \<open>float_round\<close> does to it. \<open>float_div\<close> is for a divisor
  that is not zero; where the divisor can be zero the caller tests it. \<open>true_divide\<close> is
  \<^verbatim>\<open>a / b\<close> on two ints, the quotient rounded once.
\<close>

definition float_add :: "rat \<Rightarrow> rat \<Rightarrow> rat" where
  "float_add a b = float_round (float_round a + float_round b)"

definition float_sub :: "rat \<Rightarrow> rat \<Rightarrow> rat" where
  "float_sub a b = float_round (float_round a - float_round b)"

definition float_mul :: "rat \<Rightarrow> rat \<Rightarrow> rat" where
  "float_mul a b = float_round (float_round a * float_round b)"

definition float_div :: "rat \<Rightarrow> rat \<Rightarrow> rat" where
  "float_div a b = float_round (float_round a / float_round b)"

definition true_divide :: "int \<Rightarrow> int \<Rightarrow> rat" where
  "true_divide a b = float_round (of_int a / of_int b)"

subsection \<open>Requests\<close>

text \<open>
  \<^verbatim>\<open>BuildRequest.metadata\<close> is a \<^verbatim>\<open>Dict[str, Any]\<close>. The scheduler reads four keys of it;
  each is modelled at the type the scheduler uses it at, \<open>None\<close> standing for an absent key.
\<close>

record req_metadata =
  md_labels :: "str list option"
  md_is_ready_for_review :: "bool option"
  md_is_draft :: "bool option"
  md_retry_count :: "int option"

text \<open>
  \<^verbatim>\<open>common/dto/build.py\<close>: \<^verbatim>\<open>BuildConfiguration\<close> declares \<^verbatim>\<open>rocm_version\<close>,
  \<^verbatim>\<open>gpu_architecture\<close> (both required) and ten further build options, none of which the
  orchestrator reads. It declares neither \<^verbatim>\<open>cpu_cores\<close> nor \<^verbatim>\<open>memory_gb\<close>.
\<close>

record BuildConfiguration =
  rocm_version :: string
  gpu_architecture :: string

text \<open>
  A configuration as the orchestrator sees it: the outcome of reading each of the three
  attributes it reads. An instance of \<^verbatim>\<open>BuildConfiguration\<close> as \<^verbatim>\<open>common/dto/build.py\<close>
  declares it has no \<^verbatim>\<open>cpu_cores\<close> and no \<^verbatim>\<open>memory_gb\<close>, so reading them raises
  \<^verbatim>\<open>AttributeError\<close>; \<open>config_of\<close> is that instance. An instance of a subclass that declares
  the two fields carries them, and so may any object passed to \<^verbatim>\<open>allocate_resources\<close>.
\<close>

datatype 'a attr = NoAttr | Attr 'a

record config_object =
  obj_cpu_cores :: "int option attr"
  obj_memory_gb :: "rat option attr"
  obj_gpu_architecture :: "string attr"

definition config_of :: "BuildConfiguration \<Rightarrow> config_object" where
  "config_of c =
     \<lparr>obj_cpu_cores = NoAttr, obj_memory_gb = NoAttr,
      obj_gpu_architecture = Attr (gpu_architecture c)\<rparr>"

record BuildRequest =
  req_id :: UUID
  repository :: string
  branch :: string
  commit_sha :: string
  pr_number :: "int option"
  configurations :: "config_object list"
  priority :: Priority
  triggered_by :: str
  metadata :: req_metadata

section \<open>Priority scheduler (\<^verbatim>\<open>priority_scheduler.py\<close>)\<close>

definition MAIN_BRANCHES :: "string list" where
  "MAIN_BRANCHES = [''main'', ''master'', ''develop'', ''release'']"

definition HOTFIX_PREFIXES :: "string list" where
  "HOTFIX_PREFIXES = [''hotfix/'', ''hotfix-'', ''fix/'']"

definition RELEASE_PREFIXES :: "string list" where
  "RELEASE_PREFIXES = [''release/'', ''release-'', ''v'']"

definition priority_weights :: "(string \<times> int) list" where
  "priority_weights =
     [(''is_main_branch'', 100), (''is_release_branch'', 80), (''is_hotfix_branch'', 90),
      (''has_priority_label'', 50), (''is_ready_for_review'', 30), (''is_draft'', - 20),
      (''is_dependabot'', - 10), (''retry_count'', - 5), (''queue_age_minutes'', 2)]"

text \<open>\<^verbatim>\<open>self._priority_weights[k]\<close>; every key the scheduler uses is a literal of the table.\<close>

definition priority_weight :: "string \<Rightarrow> int" where
  "priority_weight k = (case map_of priority_weights k of Some w \<Rightarrow> w | None \<Rightarrow> 0)"

definition label_priority_boost :: "(str \<times> int) list" where
  "label_priority_boost =
     [(lit ''critical'', 100), (lit ''urgent'', 80), (lit ''high-priority'', 60),
      (lit ''quick-test'', 40)]"

definition is_main_branch :: "string \<Rightarrow> bool" where
  "is_main_branch b = (b \<in> set MAIN_BRANCHES)"

definition is_release_branch :: "string \<Rightarrow> bool" where
  "is_release_branch b = list_ex (\<lambda>p. prefix p b) RELEASE_PREFIXES"

definition is_hotfix_branch :: "string \<Rightarrow> bool" where
  "is_hotfix_branch b = list_ex (\<lambda>p. prefix p b) HOTFIX_PREFIXES"

text \<open>The two nested loops of \<^verbatim>\<open>_get_label_priority_boost\<close>, \<open>max_boost\<close> threaded through.\<close>

definition get_label_priority_boost :: "(str \<Rightarrow> str) \<Rightarrow> str list \<Rightarrow> int" where
  "get_label_priority_boost lower labels =
     fold (\<lambda>label max_boost.
             fold (\<lambda>(boost_label, boost_value) mb.
                     if sublist boost_label (lower label) then max mb boost_value else mb)
                  label_priority_boost max_boost)
          labels 0"

definition is_dependabot_pr :: "(str \<Rightarrow> str) \<Rightarrow> BuildRequest \<Rightarrow> bool" where
  "is_dependabot_pr lower r =
     (let t = (if triggered_by r \<noteq> [] then lower (triggered_by r) else [])
      in sublist (lit ''dependabot'') t \<or> sublist (lit ''renovate'') t)"

definition calculate_priority_score :: "(str \<Rightarrow> str) \<Rightarrow> BuildRequest \<Rightarrow> int" where
  "calculate_priority_score lower r =
     (let score = 50;
          score = (if is_main_branch (branch r) then score + priority_weight ''is_main_branch'' else score);
          score = (if is_release_branch (branch r)
                   then score + priority_weight ''is_release_branch'' else score);
          score = (if is_hotfix_branch (branch r)
                   then score + priority_weight ''is_hotfix_branch'' else score);
          label_boost = get_label_priority_boost lower
                          (case md_labels (metadata r) of None \<Rightarrow> [] | Some ls \<Rightarrow> ls);
          score = score + label_boost;
          score = (if (case md_is_ready_for_review (metadata r) of None \<Rightarrow> False | Some b \<Rightarrow> b)
                   then score + priority_weight ''is_ready_for_review'' else score);
          score = (if (case md_is_draft (metadata r) of None \<Rightarrow> False | Some b \<Rightarrow> b)
                   then score + priority_weight ''is_draft'' else score);
          score = (if is_dependabot_pr lower r
                   then score + priority_weight ''is_dependabot'' else score);
          retry_count = (case md_retry_count (metadata r) of None \<Rightarrow> 0 | Some n \<Rightarrow> n)
      in score + retry_count * priority_weight ''retry_count'')"

definition calculate_priority :: "(str \<Rightarrow> str) \<Rightarrow> BuildRequest \<Rightarrow> Priority" where
  "calculate_priority lower r =
     (let score = calculate_priority_score lower r
      in if score \<ge> 150 then CRITICAL
         else if score \<ge> 80 then HIGH
         else if score \<ge> 20 then NORMAL
         else LOW)"





section \<open>Queue manager (\<^verbatim>\<open>queue_manager.py\<close>)\<close>

text \<open>
  \<^verbatim>\<open>@dataclass(order=True)\<close> compares the fields declared with \<^verbatim>\<open>compare=True\<close> as a tuple:
  \<open>(priority_value, timestamp)\<close>, lexicographically. The request takes no part in
  \<^verbatim>\<open><\<close> or \<^verbatim>\<open>==\<close>.
\<close>

record QueueItem =
  priority_value :: int
  timestamp :: instant
  request :: BuildRequest

definition item_lt :: "QueueItem \<Rightarrow> QueueItem \<Rightarrow> bool" where
  "item_lt a b =
     (priority_value a < priority_value b
      \<or> (priority_value a = priority_value b \<and> timestamp a < timestamp b))"

definition item_eq :: "QueueItem \<Rightarrow> QueueItem \<Rightarrow> bool" where
  "item_eq a b = (priority_value a = priority_value b \<and> timestamp a = timestamp b)"

text \<open>
  The order of dispatch on queue items: an earlier class, or the same class and an arrival
  that is not later.
\<close>

definition item_le :: "QueueItem \<Rightarrow> QueueItem \<Rightarrow> bool" where
  "item_le a b =
     (priority_value a < priority_value b
      \<or> (priority_value a = priority_value b \<and> timestamp a \<le> timestamp b))"

definition get_priority_value :: "Priority \<Rightarrow> int" where
  "get_priority_value p =
     (case p of CRITICAL \<Rightarrow> 0 | HIGH \<Rightarrow> 100 | NORMAL \<Rightarrow> 200 | LOW \<Rightarrow> 300)"

text \<open>\<^verbatim>\<open>QueueItem.from_request\<close>; \<open>now\<close> is the reading of \<^verbatim>\<open>datetime.now(timezone.utc).timestamp()\<close>.\<close>

definition from_request :: "instant \<Rightarrow> BuildRequest \<Rightarrow> QueueItem" where
  "from_request now r =
     \<lparr>priority_value = get_priority_value (priority r), timestamp = now, request = r\<rparr>"

subsection \<open>The standard library's binary heap\<close>

text \<open>
  \<^verbatim>\<open>heapq\<close> of CPython, on a Python list: \<^verbatim>\<open>_siftdown\<close>, \<^verbatim>\<open>_siftup\<close>, \<^verbatim>\<open>heappush\<close>,
  \<^verbatim>\<open>heappop\<close> and \<^verbatim>\<open>heapify\<close>, each \<^verbatim>\<open>while\<close> loop as a recursive function that returns
  the list and the final position. The module calls the two sift functions with positions
  inside the list only.
\<close>

function siftdown_loop ::
  "QueueItem list \<Rightarrow> nat \<Rightarrow> QueueItem \<Rightarrow> nat \<Rightarrow> QueueItem list \<times> nat" where
  "siftdown_loop heap startpos newitem pos =
     (if pos > startpos then
        (let parentpos = (pos - 1) div 2;
             parent = heap ! parentpos
         in if item_lt newitem parent
            then siftdown_loop (heap[pos := parent]) startpos newitem parentpos
            else (heap, pos))
      else (heap, pos))"
  by pat_completeness auto
termination
  by (relation "measure (\<lambda>(heap, startpos, newitem, pos). pos)") auto

declare siftdown_loop.simps [simp del]

definition siftdown :: "QueueItem list \<Rightarrow> nat \<Rightarrow> nat \<Rightarrow> QueueItem list" where
  "siftdown heap startpos pos =
     (let newitem = heap ! pos;
          (heap', pos') = siftdown_loop heap startpos newitem pos
      in heap'[pos' := newitem])"

function siftup_loop :: "QueueItem list \<Rightarrow> nat \<Rightarrow> nat \<Rightarrow> QueueItem list \<times> nat" where
  "siftup_loop heap endpos pos =
     (let childpos = 2 * pos + 1
      in if childpos < endpos then
           (let rightpos = childpos + 1;
                childpos = (if rightpos < endpos
                               \<and> \<not> item_lt (heap ! childpos) (heap ! rightpos)
                            then rightpos else childpos)
            in siftup_loop (heap[pos := heap ! childpos]) endpos childpos)
         else (heap, pos))"
  by pat_completeness auto
termination
  by (relation "measure (\<lambda>(heap, endpos, pos). endpos - pos)") (auto simp: Let_def)

declare siftup_loop.simps [simp del]

definition siftup :: "QueueItem list \<Rightarrow> nat \<Rightarrow> QueueItem list" where
  "siftup heap pos =
     (let endpos = length heap;
          startpos = pos;
          newitem = heap ! pos;
          (heap', pos') = siftup_loop heap endpos pos
      in siftdown (heap'[pos' := newitem]) startpos pos')"

definition heappush :: "QueueItem list \<Rightarrow> QueueItem \<Rightarrow> QueueItem list" where
  "heappush heap item = siftdown (heap @ [item]) 0 (length (heap @ [item]) - 1)"

text \<open>\<^verbatim>\<open>heappop\<close> raises \<^verbatim>\<open>IndexError\<close> on the empty list.\<close>

definition heappop :: "QueueItem list \<Rightarrow> exc + QueueItem \<times> QueueItem list" where
  "heappop heap =
     (if heap = [] then Inl IndexError
      else (let lastelt = last heap;
                heap' = butlast heap
            in if heap' \<noteq> [] then
                 (let returnitem = heap' ! 0
                  in Inr (returnitem, siftup (heap'[0 := lastelt]) 0))
               else Inr (lastelt, heap')))"

definition heapify :: "QueueItem list \<Rightarrow> QueueItem list" where
  "heapify x = fold (\<lambda>i heap. siftup heap i) (rev [0 ..< length x div 2]) x"

text \<open>
  The heap invariant of the module's documentation: no element is smaller than its parent,
  \<open>heap[(k - 1) // 2] <= heap[k]\<close> for every position \<open>k\<close> after the first.
\<close>

definition is_heap :: "QueueItem list \<Rightarrow> bool" where
  "is_heap heap =
     list_all (\<lambda>k. \<not> item_lt (heap ! k) (heap ! ((k - 1) div 2))) [1 ..< length heap]"

text \<open>
  The loop invariants of the two sift functions, used in the proofs below. \<open>heap_from s\<close> is
  the heap invariant on the positions whose parent is at \<open>s\<close> or later; \<open>heap_except s pos\<close>
  leaves out the pairs that touch position \<open>pos\<close>, where the loops keep a hole; \<open>bridged\<close>
  says that the parent of the hole is not above the children of the hole, \<open>above x\<close> that the
  item \<open>x\<close> is not above them; \<open>anc s p\<close> says that \<open>s\<close> is \<open>p\<close> or one of its ancestors.
\<close>

definition heap_from :: "nat \<Rightarrow> QueueItem list \<Rightarrow> bool" where
  "heap_from s h =
     (\<forall>k. 0 < k \<and> k < length h \<and> s \<le> (k - 1) div 2
          \<longrightarrow> \<not> item_lt (h ! k) (h ! ((k - 1) div 2)))"

definition heap_except :: "nat \<Rightarrow> nat \<Rightarrow> QueueItem list \<Rightarrow> bool" where
  "heap_except s pos h =
     (\<forall>k. 0 < k \<and> k < length h \<and> s \<le> (k - 1) div 2 \<and> k \<noteq> pos \<and> (k - 1) div 2 \<noteq> pos
          \<longrightarrow> \<not> item_lt (h ! k) (h ! ((k - 1) div 2)))"

definition bridged :: "nat \<Rightarrow> nat \<Rightarrow> QueueItem list \<Rightarrow> bool" where
  "bridged s pos h =
     (s < pos \<longrightarrow>
        (\<forall>c. 0 < c \<and> c < length h \<and> (c - 1) div 2 = pos
             \<longrightarrow> \<not> item_lt (h ! c) (h ! ((pos - 1) div 2))))"

definition above :: "QueueItem \<Rightarrow> nat \<Rightarrow> QueueItem list \<Rightarrow> bool" where
  "above x pos h =
     (\<forall>c. 0 < c \<and> c < length h \<and> (c - 1) div 2 = pos \<longrightarrow> \<not> item_lt (h ! c) x)"

definition anc :: "nat \<Rightarrow> nat \<Rightarrow> bool" where
  "anc s p = (\<exists>n. ((\<lambda>k. (k - 1) div 2) ^^ n) p = s)"

text \<open>
  \<^verbatim>\<open>list.remove(item)\<close>: deletes the first element equal to \<open>item\<close> (equality of queue
  items is \<^const>\<open>item_eq\<close>) and raises \<^verbatim>\<open>ValueError\<close> when there is none.
\<close>

fun list_remove :: "QueueItem \<Rightarrow> QueueItem list \<Rightarrow> QueueItem list option" where
  "list_remove item [] = None"
| "list_remove item (x # xs) =
     (if item_eq x item then Some xs
      else (case list_remove item xs of None \<Rightarrow> None | Some ys \<Rightarrow> Some (x # ys)))"

subsection \<open>The manager\<close>

text \<open>
  \<open>queue\<close> is \<^verbatim>\<open>_queue\<close> (the heap list), \<open>build_ids\<close> is \<^verbatim>\<open>_build_ids\<close> and
  \<open>queue_not_empty\<close> is the state of the \<^verbatim>\<open>asyncio.Event\<close>. A method body runs without
  interleaving between its suspension points; the only suspension point of the class is the
  wait inside \<^verbatim>\<open>dequeue\<close>.
\<close>

record QueueManager =
  queue :: "QueueItem list"
  max_queue_size :: nat
  build_ids :: "(UUID \<times> QueueItem) list"
  queue_not_empty :: bool

definition new_QueueManager :: "nat \<Rightarrow> QueueManager" where
  "new_QueueManager n =
     \<lparr>queue = [], max_queue_size = n, build_ids = [], queue_not_empty = False\<rparr>"

definition enqueue :: "instant \<Rightarrow> BuildRequest \<Rightarrow> QueueManager \<Rightarrow> bool \<times> QueueManager" where
  "enqueue now r qm =
     (if length (queue qm) \<ge> max_queue_size qm then (False, qm)
      else if map_of (build_ids qm) (req_id r) \<noteq> None then (False, qm)
      else (let item = from_request now r
            in (True, qm\<lparr>queue := heappush (queue qm) item,
                         build_ids := AList.update (req_id r) item (build_ids qm),
                         queue_not_empty := True\<rparr>)))"

text \<open>
  \<^verbatim>\<open>dequeue\<close> in three parts. \<open>dequeue_check\<close> is the first locked block. \<open>dequeue_take\<close> is
  the second locked block, which pops the heap. Between them a call whose \<open>timeout\<close> is
  truthy (neither \<^verbatim>\<open>None\<close> nor zero) awaits the event through \<^verbatim>\<open>asyncio.wait_for\<close>. For a
  negative timeout \<^verbatim>\<open>wait_for\<close> cancels the wait before it starts and raises
  \<^verbatim>\<open>TimeoutError\<close>, whatever the state of the event, and the call returns \<^verbatim>\<open>None\<close>. For a
  positive timeout the call goes on to the second block if the event is set; otherwise it is
  \<open>Waiting\<close> until an \<^verbatim>\<open>enqueue\<close> sets the event or the timeout elapses; \<open>dequeue_resume\<close> is
  how a waiting call ends.
\<close>

datatype dequeue_result = Done "BuildRequest option" | Waiting

definition dequeue_check :: "QueueManager \<Rightarrow> QueueManager" where
  "dequeue_check qm = (if queue qm = [] then qm\<lparr>queue_not_empty := False\<rparr> else qm)"

definition dequeue_take :: "QueueManager \<Rightarrow> BuildRequest option \<times> QueueManager" where
  "dequeue_take qm =
     (case heappop (queue qm) of
        Inl e \<Rightarrow> (None, qm)
      | Inr (item, heap') \<Rightarrow>
          (let qm' = qm\<lparr>queue := heap',
                         build_ids := AList.delete (req_id (request item)) (build_ids qm)\<rparr>;
               qm' = (if queue qm' = [] then qm'\<lparr>queue_not_empty := False\<rparr> else qm')
           in (Some (request item), qm')))"

definition dequeue :: "rat option \<Rightarrow> QueueManager \<Rightarrow> dequeue_result \<times> QueueManager" where
  "dequeue timeout qm =
     (let qm = dequeue_check qm
      in case timeout of
           None \<Rightarrow>
             (if queue qm = [] then (Done None, qm)
              else (let (r, qm') = dequeue_take qm in (Done r, qm')))
         | Some t \<Rightarrow>
             (if t = 0 then
                (if queue qm = [] then (Done None, qm)
                 else (let (r, qm') = dequeue_take qm in (Done r, qm')))
              else if t < 0 then (Done None, qm)
              else if queue_not_empty qm
                then (let (r, qm') = dequeue_take qm in (Done r, qm'))
              else (Waiting, qm)))"

datatype wakeup = EventSet | TimedOut

definition dequeue_resume :: "wakeup \<Rightarrow> QueueManager \<Rightarrow> BuildRequest option \<times> QueueManager" where
  "dequeue_resume w qm = (case w of TimedOut \<Rightarrow> (None, qm) | EventSet \<Rightarrow> dequeue_take qm)"

definition remove_build :: "UUID \<Rightarrow> QueueManager \<Rightarrow> bool \<times> QueueManager" where
  "remove_build build_id qm =
     (case map_of (build_ids qm) build_id of
        None \<Rightarrow> (False, qm)
      | Some item \<Rightarrow>
          (let qm = qm\<lparr>build_ids := AList.delete build_id (build_ids qm)\<rparr>
           in case list_remove item (queue qm) of
                None \<Rightarrow> (False, qm)
              | Some q \<Rightarrow> (True, qm\<lparr>queue := heapify q\<rparr>)))"

text \<open>
  \<^verbatim>\<open>reprioritize\<close> takes the item out of the heap list with \<^verbatim>\<open>list.remove\<close> and pushes the
  new item; unlike \<^verbatim>\<open>remove\<close> it does not call \<^verbatim>\<open>heapify\<close> after the removal.
\<close>

definition reprioritize ::
  "instant \<Rightarrow> UUID \<Rightarrow> Priority \<Rightarrow> QueueManager \<Rightarrow> bool \<times> QueueManager" where
  "reprioritize now build_id new_priority qm =
     (case map_of (build_ids qm) build_id of
        None \<Rightarrow> (False, qm)
      | Some old_item \<Rightarrow>
          (let qm = qm\<lparr>build_ids := AList.delete build_id (build_ids qm)\<rparr>
           in case list_remove old_item (queue qm) of
                None \<Rightarrow> (False, qm)
              | Some q \<Rightarrow>
                  (let new_item = from_request now ((request old_item)\<lparr>priority := new_priority\<rparr>)
                   in (True, qm\<lparr>queue := heappush q new_item,
                                build_ids := AList.update build_id new_item (build_ids qm)\<rparr>))))"

definition contains :: "UUID \<Rightarrow> QueueManager \<Rightarrow> bool" where
  "contains build_id qm = (map_of (build_ids qm) build_id \<noteq> None)"

text \<open>
  The items that \<open>n\<close> dequeues without timeout take from the queue, one after the other with
  nothing in between, in the order in which they are taken; each dequeue returns the request
  of its item.
\<close>

fun drain :: "nat \<Rightarrow> QueueManager \<Rightarrow> QueueItem list" where
  "drain 0 qm = []"
| "drain (Suc n) qm =
     (if queue qm = [] then [] else hd (queue qm) # drain n (snd (dequeue None qm)))"

section \<open>Resource allocator (\<^verbatim>\<open>resource_allocator.py\<close>)\<close>

datatype GPUArchitecture = GFX900 | GFX906 | GFX908 | GFX90A | GFX1030 | GFX1100 | GFX1101

definition arch_value :: "GPUArchitecture \<Rightarrow> string" where
  "arch_value a =
     (case a of GFX900 \<Rightarrow> ''gfx900'' | GFX906 \<Rightarrow> ''gfx906'' | GFX908 \<Rightarrow> ''gfx908''
      | GFX90A \<Rightarrow> ''gfx90a'' | GFX1030 \<Rightarrow> ''gfx1030'' | GFX1100 \<Rightarrow> ''gfx1100''
      | GFX1101 \<Rightarrow> ''gfx1101'')"

text \<open>\<^verbatim>\<open>GPUArchitecture(s)\<close>: the member whose value is \<open>s\<close>, \<^verbatim>\<open>ValueError\<close> when there is none.\<close>

definition GPUArchitecture_of :: "string \<Rightarrow> GPUArchitecture option" where
  "GPUArchitecture_of s =
     find (\<lambda>a. arch_value a = s) [GFX900, GFX906, GFX908, GFX90A, GFX1030, GFX1100, GFX1101]"

text \<open>
  A GPU identifier is the text \<^verbatim>\<open>f"{prefix}gpu-{i}"\<close>, kept as the pair of the prefix and the
  index \<open>i\<close>; the prefix is empty in standalone mode and the node name with a dash in cluster
  mode.
\<close>

type_synonym gpu_id = "string \<times> nat"

record ResourceAllocation =
  allocation_id :: UUID
  gpu_ids :: "gpu_id list"
  cpu_cores :: int
  memory_gb :: rat
  node_name :: string
  allocated_at :: instant

record NodeResources =
  node_name :: string
  total_gpus :: int
  available_gpus :: int
  gpu_ids :: "gpu_id list"
  gpu_architectures :: "GPUArchitecture list"
  total_cpu_cores :: int
  available_cpu_cores :: int
  total_memory_gb :: rat
  available_memory_gb :: rat
  is_healthy :: bool
  last_updated :: instant

text \<open>\<^verbatim>\<open>NodeResources(node_name=n)\<close> with the defaults of the dataclass.\<close>

definition new_NodeResources :: "instant \<Rightarrow> string \<Rightarrow> NodeResources" where
  "new_NodeResources now n =
     \<lparr>NodeResources.node_name = n, total_gpus = 0, available_gpus = 0,
      NodeResources.gpu_ids = [], gpu_architectures = [], total_cpu_cores = 0,
      available_cpu_cores = 0, total_memory_gb = 0, available_memory_gb = 0,
      is_healthy = True, last_updated = now\<rparr>"

record ResourceAllocator =
  nodes :: "(string \<times> NodeResources) list"
  allocations :: "(UUID \<times> ResourceAllocation) list"
  k8s_client :: bool

text \<open>
  What a refresh reads from outside. In standalone mode: \<^verbatim>\<open>os.cpu_count()\<close>, the two
  \<^verbatim>\<open>psutil.virtual_memory()\<close> readings in bytes and the GPU count \<^verbatim>\<open>_detect_local_gpus\<close>
  returns. In cluster mode: the answer of \<^verbatim>\<open>list_node()\<close> (\<open>None\<close> when the call raises),
  each node with its name, the two labels, the three allocatable quantities after
  \<^verbatim>\<open>int(...)\<close>, \<^verbatim>\<open>_parse_cpu_quantity\<close> and \<^verbatim>\<open>_parse_memory_quantity(...) / 1024 ** 3\<close>
  (\<open>None\<close> when one of them raises) and the verdict of \<^verbatim>\<open>_is_node_healthy\<close>.
\<close>

record k8s_node =
  k_name :: string
  k_gpu_vendor :: "string option"
  k_gpu_arch :: "string option"
  k_allocatable :: "(int \<times> int \<times> rat) option"
  k_ready :: bool

record inventory_source =
  os_cpu_count :: "int option"
  vm_total :: int
  vm_available :: int
  local_gpus :: nat
  list_node :: "k8s_node list option"

definition refresh_local_resources ::
  "instant \<Rightarrow> inventory_source \<Rightarrow> ResourceAllocator \<Rightarrow> ResourceAllocator" where
  "refresh_local_resources now src ra =
     (let name = ''local'';
          node = (case map_of (nodes ra) name of
                    None \<Rightarrow> new_NodeResources now name | Some n \<Rightarrow> n);
          node = node\<lparr>total_cpu_cores :=
                        (case os_cpu_count src of None \<Rightarrow> 4
                         | Some c \<Rightarrow> if c = 0 then 4 else c)\<rparr>;
          node = node\<lparr>available_cpu_cores := total_cpu_cores node\<rparr>;
          node = node\<lparr>total_memory_gb := true_divide (vm_total src) (1024 ^ 3)\<rparr>;
          node = node\<lparr>available_memory_gb := true_divide (vm_available src) (1024 ^ 3)\<rparr>;
          gpu_count = local_gpus src;
          node = node\<lparr>total_gpus := int gpu_count,
                       available_gpus := int gpu_count,
                       NodeResources.gpu_ids := map (\<lambda>i. ([], i)) [0 ..< gpu_count],
                       gpu_architectures := replicate gpu_count GFX90A,
                       is_healthy := True,
                       last_updated := now\<rparr>
      in ra\<lparr>nodes := AList.update name node (nodes ra)\<rparr>)"

text \<open>One pass of the loop body over a listed node; \<open>None\<close> when a quantity fails to parse.\<close>

definition refresh_k8s_node ::
  "instant \<Rightarrow> k8s_node \<Rightarrow> ResourceAllocator \<Rightarrow> ResourceAllocator option" where
  "refresh_k8s_node now node ra =
     (if k_gpu_vendor node \<noteq> Some ''amd'' then Some ra
      else (case k_allocatable node of
              None \<Rightarrow> None
            | Some (gpu_count, cpu_count, mem_gb) \<Rightarrow>
                (let gpu_arch_str = (case k_gpu_arch node of None \<Rightarrow> ''gfx90a'' | Some s \<Rightarrow> s);
                     gpu_arch = (case GPUArchitecture_of gpu_arch_str of
                                   None \<Rightarrow> GFX90A | Some a \<Rightarrow> a);
                     node_resources =
                       (case map_of (nodes ra) (k_name node) of
                          None \<Rightarrow> new_NodeResources now (k_name node) | Some n \<Rightarrow> n);
                     node_resources = node_resources
                       \<lparr>total_gpus := gpu_count,
                        available_gpus := gpu_count,
                        NodeResources.gpu_ids :=
                          map (\<lambda>i. (k_name node @ ''-'', i)) [0 ..< nat gpu_count],
                        gpu_architectures := replicate (nat gpu_count) gpu_arch,
                        total_cpu_cores := cpu_count,
                        available_cpu_cores := cpu_count,
                        total_memory_gb := mem_gb,
                        available_memory_gb := mem_gb,
                        is_healthy := k_ready node,
                        last_updated := now\<rparr>
                 in Some (ra\<lparr>nodes := AList.update (k_name node) node_resources (nodes ra)\<rparr>))))"

text \<open>The \<^verbatim>\<open>for\<close> loop inside the \<^verbatim>\<open>try\<close>: an exception ends it and keeps what was written.\<close>

fun refresh_k8s_nodes ::
  "instant \<Rightarrow> k8s_node list \<Rightarrow> ResourceAllocator \<Rightarrow> ResourceAllocator" where
  "refresh_k8s_nodes now [] ra = ra"
| "refresh_k8s_nodes now (node # rest) ra =
     (case refresh_k8s_node now node ra of
        None \<Rightarrow> ra
      | Some ra' \<Rightarrow> refresh_k8s_nodes now rest ra')"

definition refresh_node_resources ::
  "instant \<Rightarrow> inventory_source \<Rightarrow> ResourceAllocator \<Rightarrow> ResourceAllocator" where
  "refresh_node_resources now src ra =
     (if \<not> k8s_client ra then refresh_local_resources now src ra
      else (case list_node src of
              None \<Rightarrow> ra
            | Some listed \<Rightarrow> refresh_k8s_nodes now listed ra))"

text \<open>The body of the selection loop: \<open>selected_node\<close> after looking at \<open>node\<close>.\<close>

definition consider_node ::
  "int \<Rightarrow> int \<Rightarrow> rat \<Rightarrow> string \<Rightarrow> NodeResources \<Rightarrow> NodeResources option
     \<Rightarrow> NodeResources option" where
  "consider_node required_gpus required_cpu required_memory required_arch node selected_node =
     (if \<not> is_healthy node then selected_node
      else if available_gpus node < required_gpus then selected_node
      else if available_cpu_cores node < required_cpu then selected_node
      else if available_memory_gb node < required_memory then selected_node
      else if required_arch \<noteq> [] \<and> required_arch \<notin> set (map arch_value (gpu_architectures node))
        then selected_node
      else (case selected_node of
              None \<Rightarrow> Some node
            | Some s \<Rightarrow> if available_gpus node > available_gpus s then Some node else Some s))"

definition allocate_resources ::
  "instant \<Rightarrow> inventory_source \<Rightarrow> UUID \<Rightarrow> config_object \<Rightarrow> ResourceAllocator
     \<Rightarrow> (exc + ResourceAllocation option) \<times> ResourceAllocator" where
  "allocate_resources now src uuid4 config ra0 =
     (let ra = refresh_node_resources now src ra0;
          required_gpus = 1
      in case obj_cpu_cores config of
           NoAttr \<Rightarrow> (Inl (AttributeError ''cpu_cores''), ra)
         | Attr cpu \<Rightarrow>
        (let required_cpu = (case cpu of None \<Rightarrow> 8 | Some c \<Rightarrow> if c = 0 then 8 else c)
         in case obj_memory_gb config of
              NoAttr \<Rightarrow> (Inl (AttributeError ''memory_gb''), ra)
            | Attr mem \<Rightarrow>
        (let required_memory = (case mem of None \<Rightarrow> 32 | Some m \<Rightarrow> if m = 0 then 32 else m)
         in case obj_gpu_architecture config of
              NoAttr \<Rightarrow> (Inl (AttributeError ''gpu_architecture''), ra)
            | Attr required_arch \<Rightarrow>
        (case fold (consider_node required_gpus required_cpu required_memory required_arch)
                   (map snd (nodes ra)) None of
           None \<Rightarrow> (Inr None, ra)
         | Some selected_node \<Rightarrow>
             (let allocated_gpu_ids = take (nat required_gpus) (NodeResources.gpu_ids selected_node);
                  selected_node = selected_node
                    \<lparr>available_gpus := available_gpus selected_node - required_gpus,
                     available_cpu_cores := available_cpu_cores selected_node - required_cpu,
                     available_memory_gb :=
                       float_sub (available_memory_gb selected_node) required_memory\<rparr>;
                  allocation =
                    \<lparr>allocation_id = uuid4, ResourceAllocation.gpu_ids = allocated_gpu_ids,
                     cpu_cores = required_cpu, memory_gb = required_memory,
                     ResourceAllocation.node_name = NodeResources.node_name selected_node,
                     allocated_at = now\<rparr>
              in (Inr (Some allocation),
                  ra\<lparr>nodes := AList.update (NodeResources.node_name selected_node)
                                  selected_node (nodes ra),
                     allocations := AList.update uuid4 allocation (allocations ra)\<rparr>))))))"

definition release_resources ::
  "ResourceAllocation \<Rightarrow> ResourceAllocator \<Rightarrow> bool \<times> ResourceAllocator" where
  "release_resources allocation ra =
     (if map_of (allocations ra) (allocation_id allocation) = None then (False, ra)
      else (let ra = ra\<lparr>allocations := AList.delete (allocation_id allocation) (allocations ra)\<rparr>
            in case map_of (nodes ra) (ResourceAllocation.node_name allocation) of
                 None \<Rightarrow> (True, ra)
               | Some node \<Rightarrow>
                   (let node = node
                      \<lparr>available_gpus :=
                         available_gpus node + int (length (ResourceAllocation.gpu_ids allocation)),
                       available_cpu_cores := available_cpu_cores node + cpu_cores allocation,
                       available_memory_gb :=
                         float_add (available_memory_gb node) (memory_gb allocation)\<rparr>
                    in (True, ra\<lparr>nodes := AList.update (ResourceAllocation.node_name allocation)
                                             node (nodes ra)\<rparr>))))"

text \<open>The GPU, CPU and memory that the recorded allocations hold on a node.\<close>

definition outstanding :: "ResourceAllocator \<Rightarrow> string \<Rightarrow> ResourceAllocation list" where
  "outstanding ra name =
     filter (\<lambda>a. ResourceAllocation.node_name a = name) (map snd (allocations ra))"

definition outstanding_gpus :: "ResourceAllocator \<Rightarrow> string \<Rightarrow> int" where
  "outstanding_gpus ra name =
     sum_list (map (\<lambda>a. int (length (ResourceAllocation.gpu_ids a))) (outstanding ra name))"

definition outstanding_cpu_cores :: "ResourceAllocator \<Rightarrow> string \<Rightarrow> int" where
  "outstanding_cpu_cores ra name = sum_list (map cpu_cores (outstanding ra name))"

definition outstanding_memory_gb :: "ResourceAllocator \<Rightarrow> string \<Rightarrow> rat" where
  "outstanding_memory_gb ra name = sum_list (map memory_gb (outstanding ra name))"

section \<open>Load balancer (\<^verbatim>\<open>load_balancer.py\<close>)\<close>

datatype LoadBalancingStrategy =
  ROUND_ROBIN | LEAST_CONNECTIONS | WEIGHTED_ROUND_ROBIN | RANDOM | RESOURCE_AWARE

record WorkerInfo =
  worker_id :: string
  address :: string
  port :: int
  weight :: int
  current_load :: int
  max_load :: int
  is_healthy :: bool
  last_health_check :: instant
  total_builds_completed :: int
  average_build_time_seconds :: rat

definition available_capacity :: "WorkerInfo \<Rightarrow> int" where
  "available_capacity w = max 0 (max_load w - current_load w)"

record LoadBalancer =
  strategy :: LoadBalancingStrategy
  workers :: "(string \<times> WorkerInfo) list"
  round_robin_index :: nat

definition register_worker ::
  "instant \<Rightarrow> string \<Rightarrow> string \<Rightarrow> int \<Rightarrow> int \<Rightarrow> int \<Rightarrow> LoadBalancer \<Rightarrow> LoadBalancer" where
  "register_worker now wid addr prt wgt mx lb =
     lb\<lparr>workers := AList.update wid
            \<lparr>worker_id = wid, address = addr, port = prt, weight = wgt, current_load = 0,
             max_load = mx, is_healthy = True, last_health_check = now,
             total_builds_completed = 0, average_build_time_seconds = 600\<rparr>
            (workers lb)\<rparr>"

text \<open>
  The strategies. They are called with a non-empty list. \<open>draw a b\<close> is what
  \<^verbatim>\<open>random.randint(a, b)\<close> returns, a number from \<open>a\<close> to \<open>b\<close>; \<^verbatim>\<open>random.choice\<close> picks
  the element at a drawn index.
\<close>

definition select_round_robin :: "nat \<Rightarrow> WorkerInfo list \<Rightarrow> nat \<times> WorkerInfo" where
  "select_round_robin idx ws = (let idx = (idx + 1) mod length ws in (idx, ws ! idx))"

text \<open>\<^verbatim>\<open>min(workers, key=...)\<close>: the first worker of least load.\<close>

definition select_least_connections :: "WorkerInfo list \<Rightarrow> WorkerInfo" where
  "select_least_connections ws =
     fold (\<lambda>w best. if current_load w < current_load best then w else best) (tl ws) (hd ws)"

fun weighted_walk :: "int \<Rightarrow> int \<Rightarrow> WorkerInfo list \<Rightarrow> WorkerInfo option" where
  "weighted_walk target current [] = None"
| "weighted_walk target current (w # ws) =
     (let current = current + weight w * available_capacity w
      in if current \<ge> target then Some w else weighted_walk target current ws)"

definition select_weighted_round_robin ::
  "(int \<Rightarrow> int \<Rightarrow> int) \<Rightarrow> WorkerInfo list \<Rightarrow> exc + WorkerInfo" where
  "select_weighted_round_robin draw ws =
     (let total_weight = sum_list (map (\<lambda>w. weight w * available_capacity w) ws)
      in if total_weight = 0 then Inr (select_least_connections ws)
         else if total_weight < 1 then Inl ValueError
         else (case weighted_walk (draw 1 total_weight) 0 ws of
                 Some w \<Rightarrow> Inr w
               | None \<Rightarrow> Inr (last ws)))"

definition select_random :: "(int \<Rightarrow> int \<Rightarrow> int) \<Rightarrow> WorkerInfo list \<Rightarrow> WorkerInfo" where
  "select_random draw ws = ws ! nat (draw 0 (int (length ws) - 1))"

text \<open>
  The score of one worker in \<^verbatim>\<open>_select_resource_aware\<close>. The literals \<^verbatim>\<open>0.4\<close>, \<^verbatim>\<open>0.3\<close> and
  \<^verbatim>\<open>0.15\<close> are the doubles nearest to them.
\<close>

definition resource_score :: "WorkerInfo \<Rightarrow> rat" where
  "resource_score w =
     (let score = 0;
          load_score = float_sub 1 (true_divide (current_load w) (max (max_load w) 1));
          score = float_add score (float_mul load_score (float_round (4 / 10)));
          capacity_score = true_divide (available_capacity w) (max (max_load w) 1);
          score = float_add score (float_mul capacity_score (float_round (3 / 10)))
      in if total_builds_completed w > 0
         then (let efficiency_score = float_div 600 (max (average_build_time_seconds w) 1)
               in float_add score (float_mul (min efficiency_score 1) (float_round (3 / 10))))
         else float_add score (float_round (15 / 100)))"

text \<open>
  Sorting by descending score is stable, so the worker taken is the first one of
  highest score.
\<close>

definition select_resource_aware :: "WorkerInfo list \<Rightarrow> WorkerInfo" where
  "select_resource_aware ws =
     fold (\<lambda>w best. if resource_score w > resource_score best then w else best) (tl ws) (hd ws)"

definition select_by_strategy ::
  "(int \<Rightarrow> int \<Rightarrow> int) \<Rightarrow> WorkerInfo list \<Rightarrow> LoadBalancer
     \<Rightarrow> (exc + WorkerInfo option) \<times> LoadBalancer" where
  "select_by_strategy draw ws lb =
     (if ws = [] then (Inr None, lb)
      else (case strategy lb of
              ROUND_ROBIN \<Rightarrow>
                (let (idx, w) = select_round_robin (round_robin_index lb) ws
                 in (Inr (Some w), lb\<lparr>round_robin_index := idx\<rparr>))
            | LEAST_CONNECTIONS \<Rightarrow> (Inr (Some (select_least_connections ws)), lb)
            | WEIGHTED_ROUND_ROBIN \<Rightarrow>
                (case select_weighted_round_robin draw ws of
                   Inl e \<Rightarrow> (Inl e, lb)
                 | Inr w \<Rightarrow> (Inr (Some w), lb))
            | RANDOM \<Rightarrow> (Inr (Some (select_random draw ws)), lb)
            | RESOURCE_AWARE \<Rightarrow> (Inr (Some (select_resource_aware ws)), lb)))"

definition select_worker ::
  "(int \<Rightarrow> int \<Rightarrow> int) \<Rightarrow> LoadBalancer \<Rightarrow> (exc + string option) \<times> LoadBalancer" where
  "select_worker draw lb =
     (let available_workers =
            filter (\<lambda>w. is_healthy w \<and> current_load w < max_load w) (map snd (workers lb))
      in if available_workers = [] then (Inr None, lb)
         else (case select_by_strategy draw available_workers lb of
                 (Inl e, lb) \<Rightarrow> (Inl e, lb)
               | (Inr None, lb) \<Rightarrow> (Inr None, lb)
               | (Inr (Some selected), lb) \<Rightarrow>
                   (Inr (Some (worker_id selected)),
                    lb\<lparr>workers := AList.update (worker_id selected)
                           (selected\<lparr>current_load := current_load selected + 1\<rparr>)
                           (workers lb)\<rparr>)))"

definition update_worker_load :: "string \<Rightarrow> int \<Rightarrow> LoadBalancer \<Rightarrow> LoadBalancer" where
  "update_worker_load wid load_delta lb =
     (case map_of (workers lb) wid of
        None \<Rightarrow> lb
      | Some worker \<Rightarrow>
          lb\<lparr>workers := AList.update wid
                 (worker\<lparr>current_load := max 0 (current_load worker + load_delta)\<rparr>)
                 (workers lb)\<rparr>)"

text \<open>
  \<^verbatim>\<open>record_build_completion\<close> writes the load and the count into the worker before it
  computes the mean; the division raises \<^verbatim>\<open>ZeroDivisionError\<close> when the new count is zero.
\<close>

definition record_build_completion ::
  "string \<Rightarrow> rat \<Rightarrow> LoadBalancer \<Rightarrow> exc option \<times> LoadBalancer" where
  "record_build_completion wid build_time_seconds lb =
     (case map_of (workers lb) wid of
        None \<Rightarrow> (None, lb)
      | Some worker \<Rightarrow>
          (let worker = worker\<lparr>current_load := max 0 (current_load worker - 1)\<rparr>;
               worker = worker\<lparr>total_builds_completed := total_builds_completed worker + 1\<rparr>;
               old_avg = average_build_time_seconds worker;
               n = total_builds_completed worker
           in if n = 0
              then (Some ZeroDivisionError, lb\<lparr>workers := AList.update wid worker (workers lb)\<rparr>)
              else (let worker = worker
                          \<lparr>average_build_time_seconds :=
                             float_div (float_add (float_mul (of_int (n - 1)) old_avg)
                                          build_time_seconds)
                                       (of_int n)\<rparr>
                    in (None, lb\<lparr>workers := AList.update wid worker (workers lb)\<rparr>))))"

definition mark_worker_unhealthy :: "string \<Rightarrow> LoadBalancer \<Rightarrow> LoadBalancer" where
  "mark_worker_unhealthy wid lb =
     (case map_of (workers lb) wid of
        None \<Rightarrow> lb
      | Some worker \<Rightarrow>
          lb\<lparr>workers := AList.update wid (worker\<lparr>is_healthy := False\<rparr>) (workers lb)\<rparr>)"

definition mark_worker_healthy :: "instant \<Rightarrow> string \<Rightarrow> LoadBalancer \<Rightarrow> LoadBalancer" where
  "mark_worker_healthy now wid lb =
     (case map_of (workers lb) wid of
        None \<Rightarrow> lb
      | Some worker \<Rightarrow>
          lb\<lparr>workers := AList.update wid
                 (worker\<lparr>is_healthy := True, last_health_check := now\<rparr>) (workers lb)\<rparr>)"

text \<open>
  What the HTTP probe of a worker's \<^verbatim>\<open>/health\<close> endpoint does: it answers with a status
  code, or the \<^verbatim>\<open>try\<close> block raises (the five-second timeout, a refused connection, a
  missing \<^verbatim>\<open>aiohttp\<close>).
\<close>

datatype probe_outcome = Response int | ProbeTimeout | ProbeConnectionError | ProbeImportError

definition check_worker_health ::
  "(WorkerInfo \<Rightarrow> probe_outcome) \<Rightarrow> string \<Rightarrow> LoadBalancer \<Rightarrow> bool" where
  "check_worker_health probe wid lb =
     (case map_of (workers lb) wid of
        None \<Rightarrow> False
      | Some worker \<Rightarrow>
          (case probe worker of
             Response status \<Rightarrow> status = 200
           | _ \<Rightarrow> True))"

text \<open>
  One round of the health check. \<open>clock wid\<close> is the clock reading when worker \<open>wid\<close> is
  marked healthy. \<^verbatim>\<open>_check_worker_health\<close> catches every exception of the probe itself, so
  the \<^verbatim>\<open>except\<close> branch of the round is never entered.
\<close>

definition perform_health_checks ::
  "(string \<Rightarrow> instant) \<Rightarrow> (WorkerInfo \<Rightarrow> probe_outcome) \<Rightarrow> LoadBalancer \<Rightarrow> LoadBalancer" where
  "perform_health_checks clock probe lb =
     (let worker_ids = map fst (workers lb)
      in fold (\<lambda>wid lb. if check_worker_health probe wid lb
                          then mark_worker_healthy (clock wid) wid lb
                          else mark_worker_unhealthy wid lb)
              worker_ids lb)"

section \<open>State manager (\<^verbatim>\<open>state_manager.py\<close>)\<close>

text \<open>
  The state of a build is a \<^verbatim>\<open>Dict[str, Any]\<close>; the values that occur are \<^verbatim>\<open>None\<close>, strings,
  the ISO text of an instant, integers and floats.
\<close>

datatype jv = JNone | JStr string | JIso instant | JInt int | JNum rat

definition status_value :: "BuildStatus \<Rightarrow> string" where
  "status_value s =
     (case s of PENDING \<Rightarrow> ''pending'' | QUEUED \<Rightarrow> ''queued'' | RUNNING \<Rightarrow> ''running''
      | SUCCESS \<Rightarrow> ''success'' | FAILURE \<Rightarrow> ''failure'' | CANCELLED \<Rightarrow> ''cancelled''
      | TIMEOUT \<Rightarrow> ''timeout'' | SKIPPED \<Rightarrow> ''skipped'')"

text \<open>
  \<^verbatim>\<open>BuildStatus.NAME\<close>: attribute access on the enum class yields the member of that name
  and raises \<^verbatim>\<open>AttributeError\<close> for a name the class does not declare.
\<close>

definition BuildStatus_attr :: "string \<Rightarrow> exc + BuildStatus" where
  "BuildStatus_attr name =
     (case map_of [(''PENDING'', PENDING), (''QUEUED'', QUEUED), (''RUNNING'', RUNNING),
                   (''SUCCESS'', SUCCESS), (''FAILURE'', FAILURE), (''CANCELLED'', CANCELLED),
                   (''TIMEOUT'', TIMEOUT), (''SKIPPED'', SKIPPED)] name of
        None \<Rightarrow> Inl (AttributeError name)
      | Some s \<Rightarrow> Inr s)"

record StateManager =
  build_states :: "(UUID \<times> (string \<times> jv) list) list"
  build_requests :: "(UUID \<times> BuildRequest) list"
  persistence_enabled :: bool

text \<open>
  Writes to the persistence backend leave the in-memory maps as they are and are not
  modelled; what a scan of the backend returns is an argument of \<open>restore_pending_builds\<close>.
\<close>

definition save_build_request :: "instant \<Rightarrow> BuildRequest \<Rightarrow> StateManager \<Rightarrow> StateManager" where
  "save_build_request now r sm =
     sm\<lparr>build_requests := AList.update (req_id r) r (build_requests sm),
        build_states := AList.update (req_id r)
          [(''status'', JStr (status_value PENDING)),
           (''repository'', JStr (repository r)),
           (''branch'', JStr (branch r)),
           (''commit_sha'', JStr (commit_sha r)),
           (''pr_number'', (case pr_number r of None \<Rightarrow> JNone | Some n \<Rightarrow> JInt n)),
           (''created_at'', JIso now)]
          (build_states sm)\<rparr>"

definition get_build_state :: "UUID \<Rightarrow> StateManager \<Rightarrow> (string \<times> jv) list option" where
  "get_build_state build_id sm = map_of (build_states sm) build_id"

text \<open>
  \<^verbatim>\<open>update_build_status\<close>. The result is the exception the call raises, if any, and the
  state it leaves. The tuple of the membership test is built from three attribute reads of
  the enum class, in order, before the test itself. The two readings of the clock in one
  call are taken as one instant.
\<close>

definition update_build_status ::
  "instant \<Rightarrow> UUID \<Rightarrow> BuildStatus \<Rightarrow> (string \<times> jv) list option \<Rightarrow> StateManager
     \<Rightarrow> exc option \<times> StateManager" where
  "update_build_status now build_id status md sm =
     (let st = (case map_of (build_states sm) build_id of None \<Rightarrow> [] | Some st \<Rightarrow> st);
          st = AList.update ''status'' (JStr (status_value status)) st;
          st = AList.update ''updated_at'' (JIso now) st;
          st = (case md of
                  None \<Rightarrow> st
                | Some m \<Rightarrow> if m = [] then st else fold (\<lambda>(k, v). AList.update k v) m st);
          sm = sm\<lparr>build_states := AList.update build_id st (build_states sm)\<rparr>
      in case BuildStatus_attr ''SUCCESS'' of
           Inl e \<Rightarrow> (Some e, sm)
         | Inr s1 \<Rightarrow>
        (case BuildStatus_attr ''FAILED'' of
           Inl e \<Rightarrow> (Some e, sm)
         | Inr s2 \<Rightarrow>
        (case BuildStatus_attr ''CANCELLED'' of
           Inl e \<Rightarrow> (Some e, sm)
         | Inr s3 \<Rightarrow>
             (if status \<in> set [s1, s2, s3]
              then (None, sm\<lparr>build_states :=
                               AList.update build_id (AList.update ''completed_at'' (JIso now) st)
                                 (build_states sm)\<rparr>)
              else (None, sm)))))"

definition is_pending_state :: "(string \<times> jv) list \<Rightarrow> bool" where
  "is_pending_state st =
     (map_of st ''status'' = Some (JStr (status_value PENDING))
      \<or> map_of st ''status'' = Some (JStr (status_value RUNNING)))"

definition restore_pending_builds :: "BuildRequest list \<Rightarrow> StateManager \<Rightarrow> BuildRequest list" where
  "restore_pending_builds backend_pending sm =
     (let restored_builds = (if persistence_enabled sm then backend_pending else [])
      in fold (\<lambda>(build_id, state) restored.
                 if is_pending_state state then
                   (case map_of (build_requests sm) build_id of
                      None \<Rightarrow> restored
                    | Some r \<Rightarrow> if r \<notin> set restored then restored @ [r] else restored)
                 else restored)
              (build_states sm) restored_builds)"

section \<open>Coordinator (\<^verbatim>\<open>coordinator.py\<close>)\<close>

record BuildCoordinator =
  queue_manager :: QueueManager
  resource_allocator :: ResourceAllocator
  load_balancer :: LoadBalancer
  state_manager :: StateManager
  active_builds :: "(UUID \<times> BuildRequest) list"
  running :: bool
  processing_task :: bool

text \<open>
  \<^verbatim>\<open>start\<close>. The calls it makes on its collaborators and on the event loop are returned in
  the order it makes them, each with what it returned: \<open>CreateTask\<close> is
  \<^verbatim>\<open>asyncio.create_task(self._process_queue())\<close> and \<open>RestorePending rs\<close> is the call of
  \<^verbatim>\<open>restore_pending_builds\<close> that returned \<open>rs\<close>. The returned list is bound to no name.
\<close>

datatype call = CreateTask | RestorePending "BuildRequest list"

definition start :: "BuildRequest list \<Rightarrow> BuildCoordinator \<Rightarrow> call list \<times> BuildCoordinator" where
  "start backend_pending c =
     (let c = c\<lparr>running := True\<rparr>;
          c = c\<lparr>processing_task := True\<rparr>;
          restored = restore_pending_builds backend_pending (state_manager c)
      in ([CreateTask, RestorePending restored], c))"

definition submit_build ::
  "(str \<Rightarrow> str) \<Rightarrow> instant \<Rightarrow> BuildRequest \<Rightarrow> BuildCoordinator \<Rightarrow> UUID \<times> BuildCoordinator" where
  "submit_build lower now r c =
     (let r = r\<lparr>priority := calculate_priority lower r\<rparr>;
          c = c\<lparr>state_manager := save_build_request now r (state_manager c)\<rparr>;
          c = c\<lparr>queue_manager := snd (enqueue now r (queue_manager c))\<rparr>
      in (req_id r, c))"

text \<open>
  The coordinator receives its collaborators through its constructor and calls their
  methods on whatever objects it was given. \<open>update\<close> below is the method
  \<^verbatim>\<open>update_build_status\<close> of the state manager it holds: \<open>update_build_status\<close> for an
  instance of the repository's \<^verbatim>\<open>StateManager\<close>, which is what \<^verbatim>\<open>main.py\<close> passes, and another
  function for an instance of a subclass that overrides the method. The functions whose
  names end in \<open>_with\<close> take it as an argument; the functions without the suffix are the
  coordinator as \<^verbatim>\<open>main.py\<close> builds it.
\<close>

type_synonym update_method =
  "instant \<Rightarrow> UUID \<Rightarrow> BuildStatus \<Rightarrow> (string \<times> jv) list option \<Rightarrow> StateManager
     \<Rightarrow> exc option \<times> StateManager"

text \<open>
  \<^verbatim>\<open>_handle_build_result\<close>. Its \<open>result\<close> argument as the function sees it: the outcome of
  each attribute it reads. \<^verbatim>\<open>BuildResult\<close> of \<^verbatim>\<open>common/dto/build.py\<close> declares \<^verbatim>\<open>status\<close>
  and \<^verbatim>\<open>environment\<close> (optional, with an optional \<^verbatim>\<open>node_name\<close>); it declares neither
  \<^verbatim>\<open>completed_at\<close> nor \<^verbatim>\<open>duration_seconds\<close>. The arguments of the call of
  \<^verbatim>\<open>update_build_status\<close> are evaluated left to right before the call.
\<close>

record result_object =
  res_status :: BuildStatus
  res_completed_at :: "instant option attr"
  res_duration_seconds :: "rat option attr"
  res_environment :: "string option option"

definition handle_build_result_with ::
  "update_method \<Rightarrow> instant \<Rightarrow> UUID \<Rightarrow> result_object \<Rightarrow> BuildCoordinator
     \<Rightarrow> exc option \<times> BuildCoordinator" where
  "handle_build_result_with update now build_id result c =
     (case res_completed_at result of
        NoAttr \<Rightarrow> (Some (AttributeError ''completed_at''), c)
      | Attr completed \<Rightarrow>
     (case res_duration_seconds result of
        NoAttr \<Rightarrow> (Some (AttributeError ''duration_seconds''), c)
      | Attr duration \<Rightarrow>
     (let md = [(''completed_at'', (case completed of None \<Rightarrow> JNone | Some t \<Rightarrow> JIso t)),
                (''duration_seconds'', (case duration of None \<Rightarrow> JNone | Some d \<Rightarrow> JNum d))];
          (e, sm) = update now build_id (res_status result) (Some md) (state_manager c);
          c = c\<lparr>state_manager := sm\<rparr>
      in case e of
           Some e \<Rightarrow> (Some e, c)
         | None \<Rightarrow>
             (case res_environment result of
                None \<Rightarrow>
                  (None, c\<lparr>load_balancer := update_worker_load ''unknown'' (- 1) (load_balancer c)\<rparr>)
              | Some None \<Rightarrow> (None, c)
              | Some (Some name) \<Rightarrow>
                  (None, c\<lparr>load_balancer := update_worker_load name (- 1) (load_balancer c)\<rparr>)))))"

definition handle_build_result ::
  "instant \<Rightarrow> UUID \<Rightarrow> result_object \<Rightarrow> BuildCoordinator \<Rightarrow> exc option \<times> BuildCoordinator" where
  "handle_build_result = handle_build_result_with update_build_status"

text \<open>
  \<^verbatim>\<open>_dispatch_to_worker\<close> builds a \<^verbatim>\<open>BuildResult\<close> without the required field
  \<^verbatim>\<open>request_id\<close> (and, for a request without configurations, a \<^verbatim>\<open>BuildConfiguration\<close>
  without its two required fields): the constructor raises a validation error.
\<close>

definition dispatch_to_worker :: "string \<Rightarrow> BuildRequest \<Rightarrow> exc + result_object" where
  "dispatch_to_worker worker r = Inl ValidationError"

text \<open>
  The two shortage branches of \<^verbatim>\<open>_execute_build\<close>: the statements run when
  \<^verbatim>\<open>allocate_resources\<close> returned \<^verbatim>\<open>None\<close>, and those run when \<^verbatim>\<open>select_worker\<close> returned
  \<^verbatim>\<open>None\<close> for the allocation \<open>allocation\<close>. Both put the request back with
  \<^verbatim>\<open>self._queue_manager.enqueue(request)\<close>.
\<close>

definition requeue_no_allocation ::
  "instant \<Rightarrow> BuildRequest \<Rightarrow> BuildCoordinator \<Rightarrow> BuildCoordinator" where
  "requeue_no_allocation now r c = c\<lparr>queue_manager := snd (enqueue now r (queue_manager c))\<rparr>"

definition requeue_no_worker ::
  "instant \<Rightarrow> BuildRequest \<Rightarrow> ResourceAllocation \<Rightarrow> BuildCoordinator \<Rightarrow> BuildCoordinator" where
  "requeue_no_worker now r allocation c =
     (let c = c\<lparr>resource_allocator := snd (release_resources allocation (resource_allocator c))\<rparr>
      in c\<lparr>queue_manager := snd (enqueue now r (queue_manager c))\<rparr>)"

text \<open>
  The \<^verbatim>\<open>except\<close> clause evaluates \<^verbatim>\<open>BuildStatus.FAILED\<close> as an argument of its call. The
  \<^verbatim>\<open>finally\<close> clause reads the local variable \<^verbatim>\<open>allocation\<close>, which is \<open>Unbound\<close> when the
  \<^verbatim>\<open>try\<close> block was left before the assignment; an exception raised there replaces the
  pending one.
\<close>

datatype binding = Unbound | Bound "ResourceAllocation option"

definition exc_text :: "exc \<Rightarrow> string" where
  "exc_text e =
     (case e of AttributeError n \<Rightarrow> n | ValidationError \<Rightarrow> ''validation error''
      | UnboundLocalError n \<Rightarrow> n | IndexError \<Rightarrow> ''index'' | ValueError \<Rightarrow> ''value''
      | ZeroDivisionError \<Rightarrow> ''division by zero'')"

definition except_clause ::
  "update_method \<Rightarrow> instant \<Rightarrow> UUID \<Rightarrow> exc \<Rightarrow> BuildCoordinator
     \<Rightarrow> exc option \<times> BuildCoordinator" where
  "except_clause update now build_id e c =
     (case BuildStatus_attr ''FAILED'' of
        Inl e' \<Rightarrow> (Some e', c)
      | Inr failed \<Rightarrow>
          (let (e', sm) = update now build_id failed
                            (Some [(''error'', JStr (exc_text e))]) (state_manager c)
           in (e', c\<lparr>state_manager := sm\<rparr>)))"

definition finally_clause ::
  "UUID \<Rightarrow> binding \<Rightarrow> exc option \<Rightarrow> BuildCoordinator \<Rightarrow> exc option \<times> BuildCoordinator" where
  "finally_clause build_id allocation pending c =
     (let c = c\<lparr>active_builds := AList.delete build_id (active_builds c)\<rparr>
      in case allocation of
           Unbound \<Rightarrow> (Some (UnboundLocalError ''allocation''), c)
         | Bound None \<Rightarrow> (pending, c)
         | Bound (Some a) \<Rightarrow>
             (pending,
              c\<lparr>resource_allocator := snd (release_resources a (resource_allocator c))\<rparr>))"

text \<open>
  The \<^verbatim>\<open>try\<close> block: the exception it raises, if any, the state of \<^verbatim>\<open>allocation\<close> when it
  is left, and the coordinator's state.
\<close>

definition try_block ::
  "update_method \<Rightarrow> instant \<Rightarrow> inventory_source \<Rightarrow> UUID \<Rightarrow> (int \<Rightarrow> int \<Rightarrow> int)
     \<Rightarrow> BuildRequest \<Rightarrow> BuildCoordinator \<Rightarrow> exc option \<times> binding \<times> BuildCoordinator" where
  "try_block update now src uuid4 draw r c =
     (let build_id = req_id r;
          c = c\<lparr>active_builds := AList.update build_id r (active_builds c)\<rparr>;
          (e, sm) = update now build_id RUNNING (Some [(''started_at'', JIso now)])
                      (state_manager c);
          c = c\<lparr>state_manager := sm\<rparr>
      in case e of
           Some e \<Rightarrow> (Some e, Unbound, c)
         | None \<Rightarrow>
        (case configurations r of
           [] \<Rightarrow> (Some ValidationError, Unbound, c)
         | config # _ \<Rightarrow>
        (case allocate_resources now src uuid4 config (resource_allocator c) of
           (Inl e, ra) \<Rightarrow> (Some e, Unbound, c\<lparr>resource_allocator := ra\<rparr>)
         | (Inr None, ra) \<Rightarrow>
             (None, Bound None, requeue_no_allocation now r (c\<lparr>resource_allocator := ra\<rparr>))
         | (Inr (Some allocation), ra) \<Rightarrow>
        (let c = c\<lparr>resource_allocator := ra\<rparr>
         in case select_worker draw (load_balancer c) of
              (Inl e, lb) \<Rightarrow> (Some e, Bound (Some allocation), c\<lparr>load_balancer := lb\<rparr>)
            | (Inr None, lb) \<Rightarrow>
                (None, Bound (Some allocation),
                 requeue_no_worker now r allocation (c\<lparr>load_balancer := lb\<rparr>))
            | (Inr (Some worker), lb) \<Rightarrow>
           (let c = c\<lparr>load_balancer := lb\<rparr>
            in case dispatch_to_worker worker r of
                 Inl e \<Rightarrow> (Some e, Bound (Some allocation), c)
               | Inr result \<Rightarrow>
                   (let (e, c) = handle_build_result_with update now build_id result c
                    in (e, Bound (Some allocation), c)))))))"

definition execute_build_with ::
  "update_method \<Rightarrow> instant \<Rightarrow> inventory_source \<Rightarrow> UUID \<Rightarrow> (int \<Rightarrow> int \<Rightarrow> int)
     \<Rightarrow> BuildRequest \<Rightarrow> BuildCoordinator \<Rightarrow> exc option \<times> BuildCoordinator" where
  "execute_build_with update now src uuid4 draw r c =
     (case try_block update now src uuid4 draw r c of
        (None, allocation, c) \<Rightarrow> finally_clause (req_id r) allocation None c
      | (Some e, allocation, c) \<Rightarrow>
          (let (pending, c) = except_clause update now (req_id r) e c
           in finally_clause (req_id r) allocation pending c))"

definition execute_build ::
  "instant \<Rightarrow> inventory_source \<Rightarrow> UUID \<Rightarrow> (int \<Rightarrow> int \<Rightarrow> int) \<Rightarrow> BuildRequest
     \<Rightarrow> BuildCoordinator \<Rightarrow> exc option \<times> BuildCoordinator" where
  "execute_build = execute_build_with update_build_status"



section \<open>Concrete scenarios\<close>

text \<open>A request on a feature branch with one configuration, by id and priority class.\<close>

definition feature_request :: "UUID \<Rightarrow> Priority \<Rightarrow> BuildRequest" where
  "feature_request i p =
     \<lparr>req_id = i, repository = ''rocm/pytorch'', branch = ''feature/x'',
      commit_sha = ''0123abc'', pr_number = None,
      configurations = [config_of \<lparr>rocm_version = ''6.0'', gpu_architecture = ''gfx90a''\<rparr>],
      priority = p, triggered_by = lit ''webhook'',
      metadata = \<lparr>md_labels = None, md_is_ready_for_review = None, md_is_draft = None,
                   md_retry_count = None\<rparr>\<rparr>"



text \<open>
  A queue that received a Critical, a Low and a High request, in this order at instants 1, 2
  and 3, after which the Critical one was reprioritized to Low at instant 4.
\<close>

definition three_queued :: QueueManager where
  "three_queued =
     snd (enqueue 3 (feature_request 3 HIGH)
       (snd (enqueue 2 (feature_request 2 LOW)
         (snd (enqueue 1 (feature_request 1 CRITICAL) (new_QueueManager 1000))))))"

definition reprioritized_queue :: QueueManager where
  "reprioritized_queue = snd (reprioritize 4 1 LOW three_queued)"

text \<open>
  A queue that received a High, a Normal and a High request at instants 1, 2 and 3, after
  which the first was reprioritized to Low at instant 4.
\<close>

definition demoted_queue :: QueueManager where
  "demoted_queue =
     snd (reprioritize 4 11 LOW
       (snd (enqueue 3 (feature_request 13 HIGH)
         (snd (enqueue 2 (feature_request 12 NORMAL)
           (snd (enqueue 1 (feature_request 11 HIGH) (new_QueueManager 1000))))))))"

text \<open>A standalone allocator before its first refresh, and a host with one GPU.\<close>

definition standalone_allocator :: ResourceAllocator where
  "standalone_allocator = \<lparr>nodes = [], allocations = [], k8s_client = False\<rparr>"

definition one_gpu_host :: inventory_source where
  "one_gpu_host =
     \<lparr>os_cpu_count = Some 16, vm_total = 68719476736, vm_available = 51539607552,
      local_gpus = 1, list_node = None\<rparr>"

text \<open>A configuration object that carries \<^verbatim>\<open>cpu_cores = None\<close> and \<^verbatim>\<open>memory_gb = None\<close>.\<close>

definition default_config :: config_object where
  "default_config =
     \<lparr>obj_cpu_cores = Attr None, obj_memory_gb = Attr None,
      obj_gpu_architecture = Attr ''gfx90a''\<rparr>"

definition allocated_once :: ResourceAllocator where
  "allocated_once = snd (allocate_resources 10 one_gpu_host 501 default_config standalone_allocator)"

text \<open>An allocator with a cluster client, and a cluster that lists one AMD node with two GPUs.\<close>

definition cluster_allocator :: ResourceAllocator where
  "cluster_allocator = \<lparr>nodes = [], allocations = [], k8s_client = True\<rparr>"

definition two_gpu_cluster :: inventory_source where
  "two_gpu_cluster =
     \<lparr>os_cpu_count = None, vm_total = 0, vm_available = 0, local_gpus = 0,
      list_node = Some [\<lparr>k_name = ''n1'', k_gpu_vendor = Some ''amd'',
                         k_gpu_arch = Some ''gfx90a'', k_allocatable = Some (2, 32, 128),
                         k_ready = True\<rparr>]\<rparr>"

definition cluster_allocated_once :: ResourceAllocator where
  "cluster_allocated_once =
     snd (allocate_resources 10 two_gpu_cluster 501 default_config cluster_allocator)"

definition stray_allocation :: ResourceAllocation where
  "stray_allocation =
     \<lparr>allocation_id = 777, ResourceAllocation.gpu_ids = [([], 0)], cpu_cores = 8,
      memory_gb = 32, ResourceAllocation.node_name = ''local'', allocated_at = 3\<rparr>"

text \<open>A coordinator with empty components.\<close>

definition idle_coordinator :: BuildCoordinator where
  "idle_coordinator =
     \<lparr>queue_manager = new_QueueManager 1000,
      resource_allocator = standalone_allocator,
      load_balancer = \<lparr>strategy = LEAST_CONNECTIONS, workers = [], round_robin_index = 0\<rparr>,
      state_manager = \<lparr>build_states = [], build_requests = [], persistence_enabled = False\<rparr>,
      active_builds = [], running = False, processing_task = False\<rparr>"

text \<open>The state manager holds request 7 in status \<^verbatim>\<open>pending\<close>; the queue is empty.\<close>

definition coordinator_with_pending :: BuildCoordinator where
  "coordinator_with_pending =
     idle_coordinator
       \<lparr>state_manager :=
          save_build_request 1 (feature_request 7 NORMAL) (state_manager idle_coordinator)\<rparr>"



definition low_draw :: "int \<Rightarrow> int \<Rightarrow> int" where
  "low_draw a b = a"





text \<open>
  Worker \<open>w1\<close> was registered and then selected for a build. \<open>declared_result\<close> is a
  \<^verbatim>\<open>BuildResult\<close> with the fields the class declares; \<open>complete_result\<close> is an object that
  also carries the two attributes the handler reads.
\<close>

definition one_worker_selected :: LoadBalancer where
  "one_worker_selected =
     snd (select_worker low_draw
       (register_worker 1 ''w1'' ''10.0.0.1'' 8080 1 5
          \<lparr>strategy = LEAST_CONNECTIONS, workers = [], round_robin_index = 0\<rparr>))"

definition coordinator_dispatched :: BuildCoordinator where
  "coordinator_dispatched =
     coordinator_with_pending\<lparr>load_balancer := one_worker_selected\<rparr>"

definition declared_result :: result_object where
  "declared_result =
     \<lparr>res_status = SUCCESS, res_completed_at = NoAttr, res_duration_seconds = NoAttr,
      res_environment = None\<rparr>"

definition complete_result :: result_object where
  "complete_result =
     \<lparr>res_status = SUCCESS, res_completed_at = Attr (Some 20), res_duration_seconds = Attr (Some 15),
      res_environment = None\<rparr>"

text \<open>Worker \<open>w1\<close> is registered and marked unhealthy.\<close>

definition one_worker_unhealthy :: LoadBalancer where
  "one_worker_unhealthy =
     mark_worker_unhealthy ''w1''
       (register_worker 1 ''w1'' ''10.0.0.1'' 8080 1 5
          \<lparr>strategy = LEAST_CONNECTIONS, workers = [], round_robin_index = 0\<rparr>)"

section \<open>Priority scoring\<close>










lemma lit_not_in_empty: "\<not> sublist (lit ''dependabot'') []" "\<not> sublist (lit ''renovate'') []"
  by (simp_all add: lit_def)




section \<open>Resource accounting\<close>

text \<open>
  C9. Releasing an allocation whose id is not among the recorded allocations returns
  \<^verbatim>\<open>False\<close> and leaves the whole allocator state, nodes and recorded allocations, as it was.
\<close>

theorem release_unknown_allocation:
  "allocation_id a \<notin> fst ` set (allocations ra) \<Longrightarrow> release_resources a ra = (False, ra)"
  by (simp add: release_resources_def map_of_eq_None_iff)

theorem release_unknown_allocation_witness:
  "allocation_id stray_allocation \<notin> fst ` set (allocations allocated_once)
   \<and> allocations allocated_once \<noteq> []
   \<and> release_resources stray_allocation allocated_once = (False, allocated_once)"
proof -
  have h: "allocation_id stray_allocation \<notin> fst ` set (allocations allocated_once)"
    by code_simp
  have n: "allocations allocated_once \<noteq> []"
    by code_simp
  from release_unknown_allocation [OF h] h n show ?thesis
    by simp
qed

text \<open>
  C1. On a standalone host with one GPU, 16 cores and 64 GB of which 48 GB are free, one
  allocation is made and then the inventory is refreshed. The allocation is still
  recorded, yet the node shows its one GPU and all 16 cores available again, and 48 GB of
  memory: the sums with the outstanding allocation exceed the totals. With no allocation
  at all, a refresh leaves 48 GB available against a total of 64 GB. In cluster mode, on a
  node with two GPUs, an allocation followed by a refresh leaves both GPUs available while
  one is still allocated.
\<close>

theorem refresh_forgets_outstanding_allocations:
  "map_of (nodes (refresh_node_resources 11 one_gpu_host allocated_once)) ''local''
     = Some \<lparr>NodeResources.node_name = ''local'', total_gpus = 1, available_gpus = 1,
             NodeResources.gpu_ids = [([], 0)], gpu_architectures = [GFX90A],
             total_cpu_cores = 16, available_cpu_cores = 16, total_memory_gb = 64,
             available_memory_gb = 48, is_healthy = True, last_updated = 11\<rparr>
   \<and> outstanding_gpus (refresh_node_resources 11 one_gpu_host allocated_once) ''local'' = 1
   \<and> outstanding_cpu_cores (refresh_node_resources 11 one_gpu_host allocated_once) ''local'' = 8
   \<and> outstanding_memory_gb (refresh_node_resources 11 one_gpu_host allocated_once) ''local'' = 32
   \<and> map_option (\<lambda>n. (total_memory_gb n, available_memory_gb n))
        (map_of (nodes (refresh_node_resources 11 one_gpu_host standalone_allocator)) ''local'')
       = Some (64, 48)
   \<and> outstanding_memory_gb (refresh_node_resources 11 one_gpu_host standalone_allocator) ''local''
       = 0
   \<and> map_option (\<lambda>n. (total_gpus n, available_gpus n))
        (map_of (nodes (refresh_node_resources 11 two_gpu_cluster cluster_allocated_once)) ''n1'')
       = Some (2, 2)
   \<and> outstanding_gpus (refresh_node_resources 11 two_gpu_cluster cluster_allocated_once) ''n1''
       = 1"
  by code_simp

section \<open>The binary heap\<close>

text \<open>
  The order on queue items is a strict weak order; \<open>heappush\<close> keeps the items and adds the
  new one.
\<close>

lemma item_lt_irrefl: "\<not> item_lt a a"
  by (simp add: item_lt_def)

lemma item_lt_asym: "item_lt a b \<Longrightarrow> \<not> item_lt b a"
  by (auto simp: item_lt_def)

lemma item_lt_between: "item_lt a c \<Longrightarrow> item_lt a b \<or> item_lt b c"
  by (auto simp: item_lt_def)

lemma not_lt_trans: "\<not> item_lt c b \<Longrightarrow> \<not> item_lt b a \<Longrightarrow> \<not> item_lt c a"
  using item_lt_between by blast

lemma item_le_iff: "item_le a b \<longleftrightarrow> \<not> item_lt b a"
  by (auto simp: item_le_def item_lt_def)

lemma siftdown_loop_mset:
  assumes "pos < length heap" and "siftdown_loop heap startpos x pos = (h', p')"
  shows "p' < length h' \<and> mset (h'[p' := x]) = mset (heap[pos := x])"
  using assms
proof (induction heap startpos x pos arbitrary: h' p' rule: siftdown_loop.induct)
  case (1 heap startpos newitem pos)
  let ?pp = "(pos - 1) div 2"
  show ?case
  proof (cases "startpos < pos \<and> item_lt newitem (heap ! ?pp)")
    case True
    have pp: "?pp < pos"
      using True by auto
    have len: "?pp < length (heap[pos := heap ! ?pp])"
      using pp "1.prems"(1) by simp
    have step: "siftdown_loop (heap[pos := heap ! ?pp]) startpos newitem ?pp = (h', p')"
      using True "1.prems"(2) by (subst (asm) siftdown_loop.simps) (simp add: Let_def)
    have ih: "p' < length h' \<and> mset (h'[p' := newitem])
                = mset ((heap[pos := heap ! ?pp])[?pp := newitem])"
      using "1.IH" [OF _ refl refl _ len step] True by simp
    let ?ls = "heap[pos := newitem]"
    have "mset (?ls[pos := ?ls ! ?pp, ?pp := ?ls ! pos]) = mset ?ls"
      using mset_swap [of ?pp ?ls pos] pp "1.prems"(1) by simp
    moreover have "?ls[pos := ?ls ! ?pp, ?pp := ?ls ! pos]
                     = (heap[pos := heap ! ?pp])[?pp := newitem]"
      using pp "1.prems"(1) by simp
    ultimately show ?thesis
      using ih by simp
  next
    case False
    then have "siftdown_loop heap startpos newitem pos = (heap, pos)"
      by (subst siftdown_loop.simps) (auto simp: Let_def)
    then show ?thesis
      using "1.prems" by simp
  qed
qed



lemma heappop_head:
  "heap \<noteq> [] \<Longrightarrow> \<exists>heap'. heappop heap = Inr (hd heap, heap')"
proof -
  assume ne: "heap \<noteq> []"
  show ?thesis
  proof (cases "butlast heap = []")
    case True
    then have "last heap = hd heap"
      using ne by (cases heap) (auto split: if_splits)
    then show ?thesis
      using ne True by (simp add: heappop_def Let_def)
  next
    case False
    then have "butlast heap ! 0 = hd heap"
      using ne by (cases heap) (auto simp: nth_Cons' split: if_splits)
    then show ?thesis
      using ne False by (simp add: heappop_def Let_def)
  qed
qed

text \<open>Ancestors in the implicit tree, where the parent of position \<open>k\<close> is \<open>(k - 1) div 2\<close>.\<close>

lemma anc_refl: "anc s s"
  unfolding anc_def by (rule exI [of _ 0]) simp

lemma funpow_parent_le: "((\<lambda>k. (k - 1) div 2) ^^ n) (p::nat) \<le> p"
proof (induction n)
  case 0
  show ?case by simp
next
  case (Suc n)
  have "((\<lambda>k. (k - 1) div 2) ^^ Suc n) p \<le> ((\<lambda>k::nat. (k - 1) div 2) ^^ n) p"
    by simp
  with Suc show ?case by linarith
qed

lemma anc_le: "anc s p \<Longrightarrow> s \<le> p"
  unfolding anc_def using funpow_parent_le by blast

lemma anc_child: "anc s p \<Longrightarrow> (c - 1) div 2 = p \<Longrightarrow> anc s c"
proof -
  assume a: "anc s p" and c: "(c - 1) div 2 = p"
  then obtain n where "((\<lambda>k. (k - 1) div 2) ^^ n) p = s"
    unfolding anc_def by blast
  then have "((\<lambda>k. (k - 1) div 2) ^^ Suc n) c = s"
    using c by (simp only: funpow_Suc_right o_apply)
  then show ?thesis
    unfolding anc_def by blast
qed

lemma anc_parent: "anc s p \<Longrightarrow> p \<noteq> s \<Longrightarrow> anc s ((p - 1) div 2)"
proof -
  assume a: "anc s p" and ne: "p \<noteq> s"
  then obtain n where n: "((\<lambda>k. (k - 1) div 2) ^^ n) p = s"
    unfolding anc_def by blast
  with ne obtain m where "n = Suc m"
    by (cases n) auto
  with n have "((\<lambda>k. (k - 1) div 2) ^^ m) ((p - 1) div 2) = s"
    by (simp only: funpow_Suc_right o_apply)
  then show ?thesis
    unfolding anc_def by blast
qed

lemma anc_zero: "anc 0 p"
proof (induction p rule: less_induct)
  case (less p)
  show ?case
  proof (cases "p = 0")
    case True
    then show ?thesis by (simp add: anc_refl)
  next
    case False
    then have "(p - 1) div 2 < p" by auto
    then have "anc 0 ((p - 1) div 2)" by (rule less.IH)
    then show ?thesis by (rule anc_child) simp
  qed
qed

text \<open>
  The first loop of \<^verbatim>\<open>_siftup\<close> moves the hole from \<open>pos\<close> down to a leaf, lifting the smaller
  child at each step; the loop of \<^verbatim>\<open>_siftdown\<close> moves the hole up from \<open>pos\<close> while the item
  to place is smaller than the parent. Both keep the heap invariant on all pairs away from
  the hole, and placing the item in the final hole restores it everywhere.
\<close>

lemma is_heap_iff: "is_heap h \<longleftrightarrow> heap_from 0 h"
  by (auto simp: is_heap_def heap_from_def list_all_iff)

lemma heap_except_update: "heap_except s pos (h[pos := y]) = heap_except s pos h"
  by (simp add: heap_except_def)

lemma child_cases:
  "0 < (c::nat) \<Longrightarrow> (c - 1) div 2 = pos \<Longrightarrow> c = 2 * pos + 1 \<or> c = 2 * pos + 2"
  by auto

lemma siftup_loop_inv:
  assumes "siftup_loop h endpos pos = (h', p')" and "endpos = length h" and "pos < length h"
    and "heap_except s pos h" and "bridged s pos h" and "anc s pos"
  shows "length h' = length h \<and> p' < length h \<and> length h \<le> 2 * p' + 1
         \<and> heap_except s p' h' \<and> bridged s p' h' \<and> anc s p'
         \<and> (\<forall>x. mset (h'[p' := x]) = mset (h[pos := x]))"
  using assms
proof (induction h endpos pos arbitrary: h' p' rule: siftup_loop.induct)
  case (1 h endpos pos)
  let ?c0 = "2 * pos + 1"
  let ?r = "?c0 + 1"
  show ?case
  proof (cases "?c0 < endpos")
    case False
    then have "siftup_loop h endpos pos = (h, pos)"
      by (subst siftup_loop.simps) (simp add: Let_def)
    then show ?thesis
      using "1.prems" False by auto
  next
    case True
    define c where "c = (if ?r < endpos \<and> \<not> item_lt (h ! ?c0) (h ! ?r) then ?r else ?c0)"
    define h2 where "h2 = h[pos := h ! c]"
    have step: "siftup_loop h2 endpos c = (h', p')"
      using True "1.prems"(1) unfolding h2_def c_def
      by (subst (asm) siftup_loop.simps) (auto simp: Let_def split: if_splits)
    have c_lt: "c < length h" and c_par: "(c - 1) div 2 = pos" and c_gt: "pos < c"
      using True "1.prems"(2) by (auto simp: c_def)
    have len2: "length h2 = length h"
      by (simp add: h2_def)
    have smaller: "\<not> item_lt (h ! k) (h ! c)"
      if "0 < k" "k < length h" "(k - 1) div 2 = pos" for k
    proof -
      from child_cases [OF that(1) that(3)] have "k = ?c0 \<or> k = ?r" by simp
      then show ?thesis
        using that(2) "1.prems"(2) item_lt_irrefl item_lt_asym by (auto simp: c_def)
    qed
    have he: "heap_except s c h2"
      unfolding heap_except_def
    proof (intro allI impI)
      fix k
      assume k: "0 < k \<and> k < length h2 \<and> s \<le> (k - 1) div 2 \<and> k \<noteq> c \<and> (k - 1) div 2 \<noteq> c"
      show "\<not> item_lt (h2 ! k) (h2 ! ((k - 1) div 2))"
      proof (cases "k = pos")
        case True
        then have "s < pos" using k by auto
        then have "\<not> item_lt (h ! c) (h ! ((pos - 1) div 2))"
          using "1.prems"(5) c_lt c_par c_gt unfolding bridged_def by auto
        moreover have "(pos - 1) div 2 \<noteq> pos" using True k by auto
        ultimately show ?thesis
          using True "1.prems"(3) by (simp add: h2_def)
      next
        case False
        show ?thesis
        proof (cases "(k - 1) div 2 = pos")
          case True
          then show ?thesis
            using smaller [of k] k False "1.prems"(3) by (simp add: h2_def)
        next
          case F2: False
          then show ?thesis
            using "1.prems"(4) k False unfolding heap_except_def by (simp add: h2_def)
        qed
      qed
    qed
    have s_le: "s \<le> pos"
      using anc_le [OF "1.prems"(6)] .
    have br: "bridged s c h2"
      unfolding bridged_def
    proof (intro allI impI)
      fix g
      assume "s < c" and g: "0 < g \<and> g < length h2 \<and> (g - 1) div 2 = c"
      have "g \<noteq> pos" "c \<noteq> pos" using g c_gt by auto
      moreover have "\<not> item_lt (h ! g) (h ! c)"
        using "1.prems"(4) g s_le c_gt unfolding heap_except_def by (auto simp: len2)
      ultimately show "\<not> item_lt (h2 ! g) (h2 ! ((c - 1) div 2))"
        using c_par "1.prems"(3) by (simp add: h2_def)
    qed
    have an: "anc s c"
      using anc_child [OF "1.prems"(6) c_par] .
    have ih: "length h' = length h2 \<and> p' < length h2 \<and> length h2 \<le> 2 * p' + 1
         \<and> heap_except s p' h' \<and> bridged s p' h' \<and> anc s p'
         \<and> (\<forall>x. mset (h'[p' := x]) = mset (h2[c := x]))"
      using "1.IH" [OF refl True refl c_def step [unfolded h2_def] _ _ he [unfolded h2_def]
          br [unfolded h2_def] an] "1.prems"(2) c_lt
      by (simp add: h2_def)
    have "mset (h2[c := x]) = mset (h[pos := x])" for x
    proof -
      let ?ls = "h[pos := x]"
      have "mset (?ls[pos := ?ls ! c, c := ?ls ! pos]) = mset ?ls"
        using mset_swap [of c ?ls pos] c_lt "1.prems"(3) by simp
      moreover have "?ls[pos := ?ls ! c, c := ?ls ! pos] = h2[c := x]"
        using c_gt "1.prems"(3) by (simp add: h2_def)
      ultimately show ?thesis by simp
    qed
    then show ?thesis
      using ih len2 by simp
  qed
qed

lemma siftdown_loop_inv:
  assumes "siftdown_loop h s x pos = (h', p')" and "pos < length h"
    and "heap_except s pos h" and "bridged s pos h" and "anc s pos" and "above x pos h"
  shows "length h' = length h \<and> heap_from s (h'[p' := x])"
  using assms
proof (induction h s x pos arbitrary: h' p' rule: siftdown_loop.induct)
  case (1 h s x pos)
  let ?pp = "(pos - 1) div 2"
  show ?case
  proof (cases "s < pos \<and> item_lt x (h ! ?pp)")
    case True
    define h2 where "h2 = h[pos := h ! ?pp]"
    have pp: "?pp < pos"
      using True by auto
    have step: "siftdown_loop h2 s x ?pp = (h', p')"
      using True "1.prems"(1) unfolding h2_def
      by (subst (asm) siftdown_loop.simps) (simp add: Let_def)
    have len2: "length h2 = length h"
      by (simp add: h2_def)
    have an: "anc s ?pp"
      using anc_parent [OF "1.prems"(5)] True by simp
    have s_pp: "s \<le> ?pp"
      using anc_le [OF an] .
    have up: "\<not> item_lt (h ! ?pp) (h ! ((?pp - 1) div 2))" if "s < ?pp"
    proof -
      have "anc s ((?pp - 1) div 2)"
        using anc_parent [OF an] that by simp
      then have "s \<le> (?pp - 1) div 2"
        by (rule anc_le)
      moreover have "(?pp - 1) div 2 \<noteq> pos" "?pp \<noteq> pos" "0 < ?pp" "?pp < length h"
        using pp that "1.prems"(2) by auto
      ultimately show ?thesis
        using "1.prems"(3) unfolding heap_except_def by blast
    qed
    have sib: "\<not> item_lt (h ! c) (h ! ?pp)"
      if "0 < c" "c < length h" "(c - 1) div 2 = ?pp" "c \<noteq> pos" for c
      using "1.prems"(3) that s_pp pp unfolding heap_except_def by auto
    have he: "heap_except s ?pp h2"
      unfolding heap_except_def
    proof (intro allI impI)
      fix k
      assume k: "0 < k \<and> k < length h2 \<and> s \<le> (k - 1) div 2 \<and> k \<noteq> ?pp \<and> (k - 1) div 2 \<noteq> ?pp"
      then have kp: "k \<noteq> pos" by auto
      show "\<not> item_lt (h2 ! k) (h2 ! ((k - 1) div 2))"
      proof (cases "(k - 1) div 2 = pos")
        case T: True
        have "\<not> item_lt (h ! k) (h ! ?pp)"
          using "1.prems"(4) True k T unfolding bridged_def by (auto simp: len2)
        then show ?thesis
          using T kp "1.prems"(2) by (simp add: h2_def)
      next
        case False
        then show ?thesis
          using "1.prems"(3) k kp unfolding heap_except_def by (simp add: h2_def)
      qed
    qed
    have br: "bridged s ?pp h2"
      unfolding bridged_def
    proof (intro allI impI)
      fix c
      assume sp: "s < ?pp" and c: "0 < c \<and> c < length h2 \<and> (c - 1) div 2 = ?pp"
      have ne: "(?pp - 1) div 2 \<noteq> pos"
        using pp by auto
      show "\<not> item_lt (h2 ! c) (h2 ! ((?pp - 1) div 2))"
      proof (cases "c = pos")
        case True
        then show ?thesis
          using up [OF sp] ne "1.prems"(2) by (simp add: h2_def)
      next
        case False
        have "\<not> item_lt (h ! c) (h ! ((?pp - 1) div 2))"
          using not_lt_trans [OF sib up [OF sp]] c False by (simp add: len2)
        then show ?thesis
          using False ne by (simp add: h2_def)
      qed
    qed
    have ab: "above x ?pp h2"
      unfolding above_def
    proof (intro allI impI)
      fix c
      assume c: "0 < c \<and> c < length h2 \<and> (c - 1) div 2 = ?pp"
      have px: "\<not> item_lt (h ! ?pp) x"
        using True item_lt_asym by blast
      show "\<not> item_lt (h2 ! c) x"
      proof (cases "c = pos")
        case True
        then show ?thesis
          using px "1.prems"(2) by (simp add: h2_def)
      next
        case False
        have "\<not> item_lt (h ! c) x"
          using not_lt_trans [OF sib px] c False by (simp add: len2)
        then show ?thesis
          using False by (simp add: h2_def)
      qed
    qed
    have "length h' = length h2 \<and> heap_from s (h'[p' := x])"
      using "1.IH" [OF _ refl refl _ step [unfolded h2_def] _ he [unfolded h2_def]
          br [unfolded h2_def] an ab [unfolded h2_def]] True pp "1.prems"(2)
      by (simp add: h2_def)
    then show ?thesis
      by (simp add: len2)
  next
    case False
    then have res: "siftdown_loop h s x pos = (h, pos)"
      by (subst siftdown_loop.simps) (auto simp: Let_def)
    have "heap_from s (h[pos := x])"
      unfolding heap_from_def
    proof (intro allI impI)
      fix k
      assume k: "0 < k \<and> k < length (h[pos := x]) \<and> s \<le> (k - 1) div 2"
      show "\<not> item_lt (h[pos := x] ! k) (h[pos := x] ! ((k - 1) div 2))"
      proof (cases "k = pos")
        case True
        then have "s < pos" "(pos - 1) div 2 \<noteq> pos"
          using k by auto
        then show ?thesis
          using False True "1.prems"(2) by simp
      next
        case kp: False
        show ?thesis
        proof (cases "(k - 1) div 2 = pos")
          case True
          then show ?thesis
            using "1.prems"(6) k kp "1.prems"(2) unfolding above_def by simp
        next
          case F2: False
          then show ?thesis
            using "1.prems"(3) k kp unfolding heap_except_def by simp
        qed
      qed
    qed
    then show ?thesis
      using res "1.prems"(1) by simp
  qed
qed

lemma leaf_no_child:
  "length h \<le> 2 * p + 1 \<Longrightarrow> \<not> (0 < c \<and> c < length h \<and> (c - 1) div 2 = p)"
  by auto

lemma siftup_heap:
  assumes "heap_from (Suc s) h" and "s < length h"
  shows "heap_from s (siftup h s) \<and> mset (siftup h s) = mset h
         \<and> length (siftup h s) = length h"
proof -
  obtain h1 p1 where l1: "siftup_loop h (length h) s = (h1, p1)"
    by (cases "siftup_loop h (length h) s") blast
  have he0: "heap_except s s h"
    using assms(1) unfolding heap_except_def heap_from_def
    by (metis Suc_leI le_neq_implies_less)
  have br0: "bridged s s h"
    by (simp add: bridged_def)
  from siftup_loop_inv [OF l1 refl assms(2) he0 br0 anc_refl]
  have p1: "length h1 = length h" "p1 < length h" "length h \<le> 2 * p1 + 1"
    "heap_except s p1 h1" "bridged s p1 h1" "anc s p1"
    and m1: "\<And>x. mset (h1[p1 := x]) = mset (h[s := x])"
    by auto
  define x where "x = h ! s"
  define h2 where "h2 = h1[p1 := x]"
  obtain h3 p3 where l2: "siftdown_loop h2 s x p1 = (h3, p3)"
    by (cases "siftdown_loop h2 s x p1") blast
  have len2: "length h2 = length h" "p1 < length h2"
    using p1 by (simp_all add: h2_def)
  have he2: "heap_except s p1 h2"
    using p1(4) by (simp add: h2_def heap_except_update)
  have br2: "bridged s p1 h2"
    unfolding bridged_def using leaf_no_child [of h2 p1] p1(3) len2 by auto
  have ab2: "above x p1 h2"
    unfolding above_def using leaf_no_child [of h2 p1] p1(3) len2 by auto
  from siftdown_loop_inv [OF l2 len2(2) he2 br2 p1(6) ab2]
  have r: "length h3 = length h2" "heap_from s (h3[p3 := x])"
    by auto
  have m2: "mset (h3[p3 := x]) = mset (h2[p1 := x])"
    using siftdown_loop_mset [OF len2(2) l2] by simp
  have x2: "h2 ! p1 = x"
    using p1 by (simp add: h2_def)
  have res: "siftup h s = h3[p3 := x]"
    using l1 l2 x2 by (simp add: siftup_def siftdown_def Let_def x_def [symmetric]
        h2_def [symmetric])
  have "mset (h2[p1 := x]) = mset h"
    using m1 [of x] assms(2) by (simp add: h2_def x_def)
  then show ?thesis
    using r m2 res len2 by simp
qed

text \<open>
  \<^verbatim>\<open>heappush\<close> and \<^verbatim>\<open>heappop\<close> keep the heap invariant, and \<^verbatim>\<open>heapify\<close> establishes it on
  any list. The head of a list that satisfies it is a minimum.
\<close>

lemma heappush_heap:
  assumes "is_heap h"
  shows "is_heap (heappush h item)"
proof -
  let ?H = "h @ [item]"
  let ?pos = "length h"
  obtain h' p' where l: "siftdown_loop ?H 0 item ?pos = (h', p')"
    by (cases "siftdown_loop ?H 0 item ?pos") blast
  have hf: "heap_from 0 h"
    using assms by (simp add: is_heap_iff)
  have he: "heap_except 0 ?pos ?H"
    unfolding heap_except_def
  proof (intro allI impI)
    fix k
    assume k: "0 < k \<and> k < length ?H \<and> 0 \<le> (k - 1) div 2 \<and> k \<noteq> ?pos \<and> (k - 1) div 2 \<noteq> ?pos"
    then have kl: "k < length h" "(k - 1) div 2 < length h"
      by auto
    then show "\<not> item_lt (?H ! k) (?H ! ((k - 1) div 2))"
      using hf k unfolding heap_from_def by (simp add: nth_append)
  qed
  have br: "bridged 0 ?pos ?H"
    unfolding bridged_def by auto
  have ab: "above item ?pos ?H"
    unfolding above_def by auto
  from siftdown_loop_inv [OF l _ he br anc_zero ab]
  have "heap_from 0 (h'[p' := item])"
    by simp
  then show ?thesis
    using l by (simp add: heappush_def siftdown_def Let_def is_heap_iff)
qed

lemma heappop_heap:
  assumes "is_heap h" and "heappop h = Inr (a, h')"
  shows "is_heap h' \<and> mset h = add_mset a (mset h')"
proof (cases "butlast h = []")
  case True
  then show ?thesis
    using assms(2) by (cases h) (auto simp: heappop_def Let_def is_heap_def split: if_splits)
next
  case False
  then have ne: "h \<noteq> []"
    by auto
  define g where "g = (butlast h)[0 := last h]"
  have res: "a = butlast h ! 0" "h' = siftup g 0"
    using assms(2) False ne by (simp_all add: heappop_def Let_def g_def)
  have hf: "heap_from 0 h"
    using assms(1) by (simp add: is_heap_iff)
  have g1: "heap_from (Suc 0) g"
    unfolding heap_from_def
  proof (intro allI impI)
    fix k
    assume k: "0 < k \<and> k < length g \<and> Suc 0 \<le> (k - 1) div 2"
    then have "k < length h" "k \<noteq> 0" "(k - 1) div 2 \<noteq> 0" "k < length (butlast h)"
      "(k - 1) div 2 < length (butlast h)"
      by (auto simp: g_def)
    then show "\<not> item_lt (g ! k) (g ! ((k - 1) div 2))"
      using hf k unfolding heap_from_def by (simp add: g_def nth_butlast)
  qed
  have gl: "0 < length g"
    using False by (simp add: g_def del: length_butlast)
  from siftup_heap [OF g1 gl]
  have r: "heap_from 0 h'" "mset h' = mset g"
    by (simp_all add: res)
  have "mset h = add_mset (last h) (mset (butlast h))"
    using ne by (metis append_butlast_last_id mset.simps(2) mset_append union_mset_add_mset_right add.right_neutral mset.simps(1))
  moreover have "add_mset (butlast h ! 0) (mset g) = add_mset (last h) (mset (butlast h))"
  proof -
    have "0 < length (butlast h)"
      using False by (simp del: length_butlast)
    then show ?thesis
      unfolding g_def by (simp add: mset_update nth_mem_mset del: length_butlast)
  qed
  ultimately show ?thesis
    using r res by (simp add: is_heap_iff)
qed

lemma heapify_steps:
  "heap_from m x \<Longrightarrow> m \<le> length x \<Longrightarrow>
   heap_from 0 (fold (\<lambda>i heap. siftup heap i) (rev [0 ..< m]) x)"
proof (induction m arbitrary: x)
  case 0
  then show ?case by simp
next
  case (Suc m)
  have s: "heap_from m (siftup x m)" "length (siftup x m) = length x"
    using siftup_heap [OF Suc.prems(1)] Suc.prems(2) by auto
  show ?case
    using Suc.IH [OF s(1)] s(2) Suc.prems(2) by simp
qed

lemma heapify_heap: "is_heap (heapify x)"
proof -
  have "heap_from (length x div 2) x"
    unfolding heap_from_def by auto
  then show ?thesis
    using heapify_steps [of "length x div 2" x] by (simp add: heapify_def is_heap_iff)
qed

lemma is_heap_parent:
  "is_heap heap \<Longrightarrow> 0 < k \<Longrightarrow> k < length heap
     \<Longrightarrow> \<not> item_lt (heap ! k) (heap ! ((k - 1) div 2))"
  by (simp add: is_heap_def list_all_iff)

lemma heap_head_minimal:
  "is_heap heap \<Longrightarrow> k < length heap \<Longrightarrow> \<not> item_lt (heap ! k) (heap ! 0)"
proof (induction k rule: less_induct)
  case (less k)
  show ?case
  proof (cases "k = 0")
    case True
    then show ?thesis
      by (simp add: item_lt_def)
  next
    case False
    let ?p = "(k - 1) div 2"
    have p: "?p < k"
      using False by auto
    have "\<not> item_lt (heap ! ?p) (heap ! 0)"
      using less.IH [OF p less.prems(1)] p less.prems(2) by simp
    moreover have "\<not> item_lt (heap ! k) (heap ! ?p)"
      using is_heap_parent [OF less.prems(1) _ less.prems(2)] False by simp
    ultimately show ?thesis
      using item_lt_between [of "heap ! k" "heap ! 0" "heap ! ?p"] by blast
  qed
qed

section \<open>Queue order\<close>

text \<open>
  What a dequeue without timeout does on any queue state: it never waits, it returns nothing
  on an empty queue, and on a non-empty one it returns the request at the head of the heap
  list.
\<close>

lemma dequeue_without_timeout_never_waits:
  "timeout = None \<or> timeout = Some 0 \<Longrightarrow> fst (dequeue timeout qm) \<noteq> Waiting"
  by (auto simp: dequeue_def Let_def split: prod.splits)

lemma dequeue_negative_timeout:
  "t < 0 \<Longrightarrow> dequeue (Some t) qm = (Done None, dequeue_check qm)"
  by (simp add: dequeue_def Let_def)

lemma dequeue_waits_only_with_timeout:
  assumes "fst (dequeue timeout qm) = Waiting"
  shows "timeout \<noteq> None \<and> timeout \<noteq> Some 0"
proof (rule ccontr)
  assume "\<not> (timeout \<noteq> None \<and> timeout \<noteq> Some 0)"
  then have "timeout = None \<or> timeout = Some 0"
    by blast
  from dequeue_without_timeout_never_waits [OF this] assms show False
    by simp
qed

lemma dequeue_empty_returns_nothing:
  "queue qm = [] \<Longrightarrow> dequeue None qm = (Done None, qm\<lparr>queue_not_empty := False\<rparr>)"
  by (simp add: dequeue_def dequeue_check_def Let_def)

lemma dequeue_returns_head:
  assumes "queue qm \<noteq> []"
  shows "fst (dequeue None qm) = Done (Some (request (hd (queue qm))))"
proof -
  obtain heap' where "heappop (queue qm) = Inr (hd (queue qm), heap')"
    using heappop_head [OF assms] by blast
  then show ?thesis
    using assms by (simp add: dequeue_def dequeue_check_def dequeue_take_def Let_def)
qed

text \<open>
  The empty queue satisfies the heap invariant, and \<^verbatim>\<open>enqueue\<close>, \<^verbatim>\<open>dequeue\<close> and \<^verbatim>\<open>remove\<close>
  keep it. While it holds, a dequeue returns a minimum of the queue, and the items taken by
  successive dequeues come in dispatch order: classes never decrease, and within a class
  arrival timestamps never decrease.
\<close>

lemma new_queue_heap: "is_heap (queue (new_QueueManager n))"
  by (simp add: new_QueueManager_def is_heap_def)

lemma enqueue_heap: "is_heap (queue qm) \<Longrightarrow> is_heap (queue (snd (enqueue now r qm)))"
  by (simp add: enqueue_def Let_def heappush_heap)

lemma dequeue_take_heap:
  "is_heap (queue qm) \<Longrightarrow> is_heap (queue (snd (dequeue_take qm)))
     \<and> set (queue (snd (dequeue_take qm))) \<subseteq> set (queue qm)"
proof -
  assume h: "is_heap (queue qm)"
  show ?thesis
  proof (cases "heappop (queue qm)")
    case (Inl e)
    then show ?thesis
      using h by (simp add: dequeue_take_def)
  next
    case (Inr p)
    obtain a h' where p: "p = (a, h')"
      by (cases p)
    from heappop_heap [OF h Inr [unfolded p]]
    have r: "is_heap h'" "mset (queue qm) = add_mset a (mset h')"
      by auto
    have "set (queue qm) = insert a (set h')"
      using arg_cong [OF r(2), of set_mset] by simp
    then have "set h' \<subseteq> set (queue qm)"
      by auto
    then show ?thesis
      using r(1) Inr p by (auto simp: dequeue_take_def Let_def)
  qed
qed

lemma dequeue_heap:
  "is_heap (queue qm) \<Longrightarrow> is_heap (queue (snd (dequeue timeout qm)))
     \<and> set (queue (snd (dequeue timeout qm))) \<subseteq> set (queue qm)"
  using dequeue_take_heap [of "dequeue_check qm"]
  by (auto simp: dequeue_def dequeue_check_def Let_def split: prod.splits option.splits)

lemma remove_build_heap:
  "is_heap (queue qm) \<Longrightarrow> is_heap (queue (snd (remove_build build_id qm)))"
  by (simp add: remove_build_def Let_def heapify_heap split: option.splits)

lemma dequeue_minimum_on_heap:
  assumes "is_heap (queue qm)" and "queue qm \<noteq> []" and "other \<in> set (queue qm)"
  shows "fst (dequeue None qm) = Done (Some (request (hd (queue qm))))
         \<and> \<not> item_lt other (hd (queue qm))"
proof -
  obtain k where k: "k < length (queue qm)" "other = queue qm ! k"
    using assms(3) by (auto simp: in_set_conv_nth)
  have "\<not> item_lt (queue qm ! k) (queue qm ! 0)"
    using heap_head_minimal [OF assms(1) k(1)] .
  then show ?thesis
    using dequeue_returns_head [OF assms(2)] k(2) assms(2) by (simp add: hd_conv_nth)
qed

lemma drain_subset: "is_heap (queue qm) \<Longrightarrow> set (drain n qm) \<subseteq> set (queue qm)"
proof (induction n arbitrary: qm)
  case 0
  show ?case by simp
next
  case (Suc n)
  show ?case
  proof (cases "queue qm = []")
    case True
    then show ?thesis by simp
  next
    case False
    from dequeue_heap [OF Suc.prems, of None]
    have d: "is_heap (queue (snd (dequeue None qm)))"
      "set (queue (snd (dequeue None qm))) \<subseteq> set (queue qm)"
      by auto
    have "set (drain n (snd (dequeue None qm))) \<subseteq> set (queue (snd (dequeue None qm)))"
      using Suc.IH [OF d(1)] .
    then show ?thesis
      using False d(2) by auto
  qed
qed

lemma drain_sorted: "is_heap (queue qm) \<Longrightarrow> sorted_wrt item_le (drain n qm)"
proof (induction n arbitrary: qm)
  case 0
  show ?case by simp
next
  case (Suc n)
  show ?case
  proof (cases "queue qm = []")
    case True
    then show ?thesis by simp
  next
    case False
    from dequeue_heap [OF Suc.prems, of None]
    have d: "is_heap (queue (snd (dequeue None qm)))"
      "set (queue (snd (dequeue None qm))) \<subseteq> set (queue qm)"
      by auto
    have "item_le (hd (queue qm)) b" if "b \<in> set (drain n (snd (dequeue None qm)))" for b
    proof -
      have "b \<in> set (queue qm)"
        using that drain_subset [OF d(1), of n] d(2) by blast
      then obtain k where "k < length (queue qm)" "b = queue qm ! k"
        by (auto simp: in_set_conv_nth)
      then show ?thesis
        using heap_head_minimal [OF Suc.prems, of k] False
        by (simp add: item_le_iff hd_conv_nth)
    qed
    then show ?thesis
      using False Suc.IH [OF d(1)] by simp
  qed
qed

text \<open>
  C6. From the queue in which a request was reprioritized, three dequeues without anything
  in between return the Low request 2 first, then the High request 3, then request 1:
  a Low item leaves the queue before a High one. The heap list satisfied the heap invariant
  before the reprioritization and does not satisfy it after.
\<close>

theorem dequeue_order_after_reprioritize:
  "fst (dequeue None reprioritized_queue) = Done (Some (feature_request 2 LOW))
   \<and> fst (dequeue None (snd (dequeue None reprioritized_queue)))
       = Done (Some (feature_request 3 HIGH))
   \<and> fst (dequeue None (snd (dequeue None (snd (dequeue None reprioritized_queue)))))
       = Done (Some (feature_request 1 LOW))
   \<and> is_heap (queue three_queued)
   \<and> \<not> is_heap (queue reprioritized_queue)"
  by code_simp

text \<open>
  C10. A dequeue without timeout on the non-empty queue \<open>demoted_queue\<close> returns the Normal
  request 12, although the queue holds the High request 13, whose item is smaller.
\<close>

theorem dequeue_not_minimum_after_reprioritize:
  "fst (dequeue None demoted_queue) = Done (Some (feature_request 12 NORMAL))
   \<and> from_request 3 (feature_request 13 HIGH) \<in> set (queue demoted_queue)
   \<and> from_request 2 (feature_request 12 NORMAL) \<in> set (queue demoted_queue)
   \<and> item_lt (from_request 3 (feature_request 13 HIGH))
              (from_request 2 (feature_request 12 NORMAL))
   \<and> \<not> is_heap (queue demoted_queue)"
  by code_simp

section \<open>Re-enqueue on shortage\<close>





section \<open>Status updates, start-up and completion\<close>

lemma update_build_status_raises:
  "fst (update_build_status now build_id status md sm) = Some (AttributeError ''FAILED'')"
  by (simp add: update_build_status_def BuildStatus_attr_def Let_def)

lemma start_keeps_queue: "queue_manager (snd (start backend_pending c)) = queue_manager c"
  by (simp add: start_def Let_def)

text \<open>
  With the repository's own state manager, \<^verbatim>\<open>_execute_build\<close> leaves its \<^verbatim>\<open>try\<close> block at
  the first statement and ends in the \<^verbatim>\<open>finally\<close> clause; the queue is not touched.
\<close>

lemma execute_build_raises:
  "fst (execute_build now src uuid4 draw r c) = Some (UnboundLocalError ''allocation'')
   \<and> queue_manager (snd (execute_build now src uuid4 draw r c)) = queue_manager c"
proof -
  obtain sm where u: "update_build_status now (req_id r) RUNNING (Some [(''started_at'', JIso now)])
                        (state_manager c) = (Some (AttributeError ''FAILED''), sm)"
    using update_build_status_raises
      [of now "req_id r" RUNNING "Some [(''started_at'', JIso now)]" "state_manager c"]
    by (cases "update_build_status now (req_id r) RUNNING (Some [(''started_at'', JIso now)])
                 (state_manager c)") simp
  show ?thesis
    by (simp add: execute_build_def execute_build_with_def try_block_def u Let_def
        except_clause_def finally_clause_def BuildStatus_attr_def)
qed

text \<open>
  C8. For a build whose request was saved, an update to each of the statuses success,
  failure, cancelled and timeout raises \<^verbatim>\<open>AttributeError\<close>, and the build's state has no
  \<^verbatim>\<open>completed_at\<close> afterwards.
\<close>

theorem terminal_update_raises_unstamped:
  "list_all
     (\<lambda>s. fst (update_build_status 5 7 s None (state_manager coordinator_with_pending))
             = Some (AttributeError ''FAILED'')
           \<and> map_option (\<lambda>st. (map_of st ''status'', map_of st ''completed_at''))
               (get_build_state 7
                  (snd (update_build_status 5 7 s None (state_manager coordinator_with_pending))))
             = Some (Some (JStr (status_value s)), None))
     [SUCCESS, FAILURE, CANCELLED, TIMEOUT]"
  by code_simp

text \<open>
  C2. The state manager holds request 7 in status pending. \<^verbatim>\<open>start\<close> creates the loop task
  first and calls the restore operation second; the restore returns request 7, and after
  \<^verbatim>\<open>start\<close> the queue is still empty.
\<close>

theorem start_drops_restored_requests:
  "map_option (\<lambda>st. map_of st ''status'')
      (get_build_state 7 (state_manager coordinator_with_pending)) = Some (Some (JStr ''pending''))
   \<and> fst (start [] coordinator_with_pending)
       = [CreateTask, RestorePending [feature_request 7 NORMAL]]
   \<and> \<not> contains 7 (queue_manager (snd (start [] coordinator_with_pending)))
   \<and> queue (queue_manager (snd (start [] coordinator_with_pending))) = []"
  by code_simp

text \<open>
  C4. Worker \<open>w1\<close> was selected for build 7 and carries load 1. For a result as
  \<^verbatim>\<open>BuildResult\<close> declares it, the handler raises before any update and changes nothing.
  For a result that carries the attributes the handler reads, the status update raises
  and the load balancer is left as it was. The call the handler would make next,
  \<^verbatim>\<open>update_worker_load("unknown", -1)\<close>, does not reach \<open>w1\<close> either. Recording the completion
  for \<open>w1\<close> would give load 0, one completed build and an average of 15 seconds.
\<close>

theorem handle_build_result_skips_completion:
  "map_option (\<lambda>w. (current_load w, total_builds_completed w, average_build_time_seconds w))
      (map_of (workers one_worker_selected) ''w1'') = Some (1, 0, 600)
   \<and> handle_build_result 20 7 declared_result coordinator_dispatched
       = (Some (AttributeError ''completed_at''), coordinator_dispatched)
   \<and> fst (handle_build_result 20 7 complete_result coordinator_dispatched)
       = Some (AttributeError ''FAILED'')
   \<and> load_balancer (snd (handle_build_result 20 7 complete_result coordinator_dispatched))
       = one_worker_selected
   \<and> update_worker_load ''unknown'' (- 1) one_worker_selected = one_worker_selected
   \<and> fst (record_build_completion ''w1'' 15 one_worker_selected) = None
   \<and> map_option (\<lambda>w. (current_load w, total_builds_completed w, average_build_time_seconds w))
        (map_of (workers (snd (record_build_completion ''w1'' 15 one_worker_selected))) ''w1'')
       = Some (0, 1, 15)"
  by code_simp

section \<open>Health probes\<close>

text \<open>
  C7. Worker \<open>w1\<close> is marked unhealthy. A round in which its probe times out, or cannot
  connect, marks it healthy and stamps the check time; a round in which the probe answers
  503 leaves it unhealthy.
\<close>

theorem failed_probe_marks_worker_healthy:
  "map_option is_healthy (map_of (workers one_worker_unhealthy) ''w1'') = Some False
   \<and> map_option (\<lambda>w. (is_healthy w, last_health_check w))
        (map_of (workers (perform_health_checks (\<lambda>wid. 9) (\<lambda>w. ProbeTimeout)
                            one_worker_unhealthy)) ''w1'') = Some (True, 9)
   \<and> map_option (\<lambda>w. (is_healthy w, last_health_check w))
        (map_of (workers (perform_health_checks (\<lambda>wid. 9) (\<lambda>w. ProbeConnectionError)
                            one_worker_unhealthy)) ''w1'') = Some (True, 9)
   \<and> map_option (\<lambda>w. (is_healthy w, last_health_check w))
        (map_of (workers (perform_health_checks (\<lambda>wid. 9) (\<lambda>w. Response 503)
                            one_worker_unhealthy)) ''w1'') = Some (False, 1)"
  by code_simp

end
